theory Spec2Isabelle
  imports Main
begin

section \<open>Values, rows and requests\<close>

text \<open>
  The server (\<^verbatim>\<open>src/index.js\<close>) is an Express application with eight route handlers over
  two collaborators: the Supabase record store (tables \<^verbatim>\<open>vendors\<close> and
  \<^verbatim>\<open>bank_accounts\<close>) and the Supabase object store (bucket \<^verbatim>\<open>photos\<close>).

  A field value of a request body or of a stored row is a string or \<^verbatim>\<open>null\<close>; a field
  that is absent (JavaScript \<^verbatim>\<open>undefined\<close>) is \<open>None\<close> of the option type. A JavaScript
  object is a map from field names to values, and the object spread
  \<^verbatim>\<open>{...a, ...b}\<close> is \<open>a ++ b\<close>: the right operand wins.
\<close>

datatype jval = JNull | JStr string

type_synonym row = "string \<rightharpoonup> jval"

type_synonym buffer = string

text \<open>
  What a template literal \<^verbatim>\<open>`${v}`\<close> renders for a value: the string itself,
  \<^verbatim>\<open>null\<close> or \<^verbatim>\<open>undefined\<close>.
\<close>

fun toString :: "jval option \<Rightarrow> string" where
  "toString None = ''undefined''"
| "toString (Some JNull) = ''null''"
| "toString (Some (JStr s)) = s"

text \<open>
  The request as a handler sees it: \<^verbatim>\<open>req.params.user_id\<close>, \<^verbatim>\<open>req.body\<close>,
  \<^verbatim>\<open>req.files\<close> (set by \<^verbatim>\<open>upload.fields\<close>: one buffer per named field, and
  \<^verbatim>\<open>undefined\<close>, here \<open>None\<close>, when the request is not multipart) and \<^verbatim>\<open>req.file\<close>
  (field \<open>req_file\<close>, set by \<^verbatim>\<open>upload.single\<close>; \<^verbatim>\<open>undefined\<close>, here \<open>None\<close>,
  when no file came).
\<close>

record request =
  params_user_id :: string
  body :: row
  files :: "(string \<rightharpoonup> buffer) option"
  req_file :: "buffer option"

datatype payload = Error string | Row row | Rows "row list" | Undefined

record response =
  status :: nat
  payload :: payload

text \<open>\<^verbatim>\<open>res.status(n).json(p)\<close>; a bare \<^verbatim>\<open>res.json(p)\<close> answers 200.\<close>

definition json :: "nat \<Rightarrow> payload \<Rightarrow> response" where
  "json n p = \<lparr>status = n, payload = p\<rparr>"

text \<open>\<^verbatim>\<open>data[0]\<close> of the rows a write returns: \<^verbatim>\<open>undefined\<close> for the empty array.\<close>

fun first_row :: "row list \<Rightarrow> payload" where
  "first_row [] = Undefined"
| "first_row (r # rs) = Row r"

section \<open>The Supabase client\<close>

text \<open>
  The client is the external collaborator of the handlers. Its state is the rows of
  each table, the objects of each bucket (keyed by bucket and path) and the list of
  calls issued so far, which makes "was attempted" and "was never called" statable.
\<close>

record stored_object =
  content :: buffer
  contentType :: string

text \<open>
  The calls, with their arguments in the order of the source: \<open>Upload bucket path bytes upsert
  contentType\<close>, \<open>GetPublicUrl bucket path\<close>, the three queries
  \<^verbatim>\<open>from(table).select(columns)\<close> with \<^verbatim>\<open>.eq(column, value).maybeSingle()\<close>, with
  \<^verbatim>\<open>.eq(column, value).single()\<close> or unfiltered, \<open>Insert table rows\<close> and
  \<open>Update table patch column value\<close> for \<^verbatim>\<open>from(table).update(patch).eq(column, value)\<close>.
\<close>

datatype call =
    Upload string string buffer bool string
  | GetPublicUrl string string
  | SelectMaybeSingle string string string "jval option"
  | SelectSingle string string string "jval option"
  | SelectAll string string
  | Insert string "row list"
  | Update string row string "jval option"

record supabase =
  tables :: "string \<Rightarrow> row list"
  objects :: "string \<times> string \<rightharpoonup> stored_object"
  calls :: "call list"

text \<open>
  What the services decide and the program does not: \<open>fault e c\<close> is the error message
  with which the service answers the call \<open>c\<close>, if it rejects it (network failure,
  storage rejection, schema violation), and \<open>publicUrl e bucket path\<close> is the public URL
  the object store derives for a path.
\<close>

record env =
  fault :: "call \<Rightarrow> string option"
  publicUrl :: "string \<Rightarrow> string \<Rightarrow> string"

text \<open>
  An awaited computation runs on the client state and either returns a value or throws
  an error, of which the handlers read only the message.
\<close>

datatype 'a outcome = Return 'a | Throw string

type_synonym 'a async = "supabase \<Rightarrow> 'a outcome \<times> supabase"

definition return :: "'a \<Rightarrow> 'a async" where
  "return x s = (Return x, s)"

definition throw :: "string \<Rightarrow> 'a async" where
  "throw msg s = (Throw msg, s)"

definition await :: "'a async \<Rightarrow> ('a \<Rightarrow> 'b async) \<Rightarrow> 'b async" where
  "await m k s = (case m s of (Return x, s') \<Rightarrow> k x s' | (Throw msg, s') \<Rightarrow> (Throw msg, s'))"

text \<open>
  A call of the client returns a promise that always resolves, to \<^verbatim>\<open>{data, error}\<close>; awaiting
  it never throws.
\<close>

definition resolve :: "(supabase \<Rightarrow> 'a \<times> supabase) \<Rightarrow> 'a async" where
  "resolve f s = (case f s of (x, s') \<Rightarrow> (Return x, s'))"

definition issue :: "call \<Rightarrow> supabase \<Rightarrow> supabase" where
  "issue c s = s\<lparr>calls := calls s @ [c]\<rparr>"

subsection \<open>Object store\<close>

text \<open>
  \<^verbatim>\<open>supabase.storage.from(bucket).upload(path, bytes, {upsert, contentType})\<close> answers
  \<^verbatim>\<open>{error}\<close>: the service's error, or, without \<^verbatim>\<open>upsert\<close>, the refusal to replace an
  existing object; otherwise the object is written at the path, replacing what was there.
\<close>

definition storage_upload ::
  "env \<Rightarrow> string \<Rightarrow> string \<Rightarrow> buffer \<Rightarrow> bool \<Rightarrow> string \<Rightarrow> supabase \<Rightarrow> string option \<times> supabase" where
  "storage_upload e bucket path bytes upsert ctype s =
     (let c = Upload bucket path bytes upsert ctype; s1 = issue c s in
      case fault e c of
        Some msg \<Rightarrow> (Some msg, s1)
      | None \<Rightarrow>
          if \<not> upsert \<and> objects s (bucket, path) \<noteq> None
          then (Some ''The resource already exists'', s1)
          else (None, s1\<lparr>objects := (objects s1)((bucket, path) \<mapsto>
                              \<lparr>content = bytes, contentType = ctype\<rparr>)\<rparr>))"

text \<open>\<^verbatim>\<open>getPublicUrl(path)\<close> is computed by the client and cannot fail.\<close>

definition storage_getPublicUrl :: "env \<Rightarrow> string \<Rightarrow> string \<Rightarrow> supabase \<Rightarrow> string \<times> supabase" where
  "storage_getPublicUrl e bucket path s = (publicUrl e bucket path, issue (GetPublicUrl bucket path) s)"

subsection \<open>Record store\<close>

text \<open>
  \<^verbatim>\<open>.eq(column, value)\<close> sends the value rendered as text; a row matches when its
  column holds that text. A \<^verbatim>\<open>null\<close> column matches nothing.
\<close>

definition eq_filter :: "string \<Rightarrow> jval option \<Rightarrow> row \<Rightarrow> bool" where
  "eq_filter column v r = (r column = Some (JStr (toString v)))"

text \<open>\<^verbatim>\<open>.select(columns)\<close>: every column for \<^verbatim>\<open>*\<close>, the named column otherwise.\<close>

definition project :: "string \<Rightarrow> row \<Rightarrow> row" where
  "project columns r = (if columns = ''*'' then r else r |` {columns})"

text \<open>
  The message of error PGRST116, with which \<^verbatim>\<open>.single()\<close> answers anything but one row
  and \<^verbatim>\<open>.maybeSingle()\<close> answers more than one.
\<close>

definition PGRST116 :: string where
  "PGRST116 = ''JSON object requested, multiple (or no) rows returned''"

text \<open>
  A query answers \<^verbatim>\<open>{data, error}\<close> with exactly one of the two set: \<open>Inl\<close> the error
  message, \<open>Inr\<close> the data. The client returns errors; it does not throw.
\<close>

definition db_maybeSingle ::
  "env \<Rightarrow> string \<Rightarrow> string \<Rightarrow> string \<Rightarrow> jval option \<Rightarrow> supabase \<Rightarrow> (string + row option) \<times> supabase" where
  "db_maybeSingle e table columns column v s =
     (let c = SelectMaybeSingle table columns column v; s1 = issue c s in
      case fault e c of
        Some msg \<Rightarrow> (Inl msg, s1)
      | None \<Rightarrow>
          (case filter (eq_filter column v) (tables s table) of
             [] \<Rightarrow> (Inr None, s1)
           | [r] \<Rightarrow> (Inr (Some (project columns r)), s1)
           | r # r' # rs \<Rightarrow> (Inl PGRST116, s1)))"

definition db_single ::
  "env \<Rightarrow> string \<Rightarrow> string \<Rightarrow> string \<Rightarrow> jval option \<Rightarrow> supabase \<Rightarrow> (string + row) \<times> supabase" where
  "db_single e table columns column v s =
     (let c = SelectSingle table columns column v; s1 = issue c s in
      case fault e c of
        Some msg \<Rightarrow> (Inl msg, s1)
      | None \<Rightarrow>
          (case filter (eq_filter column v) (tables s table) of
             [r] \<Rightarrow> (Inr (project columns r), s1)
           | _ \<Rightarrow> (Inl PGRST116, s1)))"

definition db_select :: "env \<Rightarrow> string \<Rightarrow> string \<Rightarrow> supabase \<Rightarrow> (string + row list) \<times> supabase" where
  "db_select e table columns s =
     (let c = SelectAll table columns; s1 = issue c s in
      case fault e c of
        Some msg \<Rightarrow> (Inl msg, s1)
      | None \<Rightarrow> (Inr (map (project columns) (tables s table)), s1))"

text \<open>\<^verbatim>\<open>.insert(rows).select()\<close> appends the rows and returns them as stored.\<close>

definition db_insert :: "env \<Rightarrow> string \<Rightarrow> row list \<Rightarrow> supabase \<Rightarrow> (string + row list) \<times> supabase" where
  "db_insert e table rows s =
     (let c = Insert table rows; s1 = issue c s in
      case fault e c of
        Some msg \<Rightarrow> (Inl msg, s1)
      | None \<Rightarrow> (Inr rows,
                 s1\<lparr>tables := (tables s1)(table := tables s1 table @ rows)\<rparr>))"

text \<open>
  \<^verbatim>\<open>.update(patch).eq(column, value).select()\<close> overwrites the patch's fields in every
  matching row and returns the rows it changed: the empty array when none matches.
\<close>

definition apply_patch :: "row \<Rightarrow> string \<Rightarrow> jval option \<Rightarrow> row \<Rightarrow> row" where
  "apply_patch patch column v r = (if eq_filter column v r then r ++ patch else r)"

definition db_update ::
  "env \<Rightarrow> string \<Rightarrow> row \<Rightarrow> string \<Rightarrow> jval option \<Rightarrow> supabase \<Rightarrow> (string + row list) \<times> supabase" where
  "db_update e table patch column v s =
     (let c = Update table patch column v; s1 = issue c s in
      case fault e c of
        Some msg \<Rightarrow> (Inl msg, s1)
      | None \<Rightarrow>
          (Inr (map (\<lambda>r. r ++ patch) (filter (eq_filter column v) (tables s table))),
           s1\<lparr>tables := (tables s1)(table := map (apply_patch patch column v) (tables s1 table))\<rparr>))"

section \<open>The upload helper\<close>

text \<open>
  \<^verbatim>\<open>uploadToSupabase(fileBuffer, fileName, userId, folder)\<close>, lines 20 to 35: the path is
  \<^verbatim>\<open>`${userId}/${folder}/${fileName}`\<close>, the upload goes to bucket \<^verbatim>\<open>photos\<close> with
  \<^verbatim>\<open>upsert: true\<close> and content type \<^verbatim>\<open>image/jpeg\<close>, an error is thrown, and the public URL
  of the path is returned.
\<close>

definition uploadToSupabase ::
  "env \<Rightarrow> buffer \<Rightarrow> string \<Rightarrow> jval option \<Rightarrow> string \<Rightarrow> string async" where
  "uploadToSupabase e fileBuffer fileName userId folder s =
     (let filePath = toString userId @ ''/'' @ folder @ ''/'' @ fileName in
      case storage_upload e ''photos'' filePath fileBuffer True ''image/jpeg'' s of
        (Some error, s1) \<Rightarrow> (Throw error, s1)
      | (None, s1) \<Rightarrow>
          (case storage_getPublicUrl e ''photos'' filePath s1 of
             (data, s2) \<Rightarrow> (Return data, s2)))"

section \<open>Vendor handlers\<close>

text \<open>
  One block \<^verbatim>\<open>if (req.files.F) { photoUrls.F = await uploadToSupabase(req.files.F[0].buffer,
  NAME, userId, "vendor"); }\<close> of lines 69 to 92 and 140 to 163.
\<close>

definition upload_if_present ::
  "env \<Rightarrow> (string \<rightharpoonup> buffer) \<Rightarrow> string \<Rightarrow> string \<Rightarrow> jval option \<Rightarrow> string \<Rightarrow> row \<Rightarrow> row async" where
  "upload_if_present e fs field fileName userId folder photoUrls =
     (case fs field of
        None \<Rightarrow> return photoUrls
      | Some buf \<Rightarrow>
          await (uploadToSupabase e buf fileName userId folder)
            (\<lambda>url. return (photoUrls(field \<mapsto> JStr url))))"

text \<open>
  The message of the TypeError that reading a property of \<^verbatim>\<open>undefined\<close> throws, when
  \<^verbatim>\<open>req.files\<close> is \<^verbatim>\<open>undefined\<close>.
\<close>

definition TypeError_undefined :: string where
  "TypeError_undefined = ''Cannot read properties of undefined''"

text \<open>
  The three blocks in the source's order, starting from \<^verbatim>\<open>let photoUrls = {}\<close>; the same
  text stands in the create handler (lines 68 to 92) and in the update handler (lines 139
  to 163).
\<close>

definition upload_vendor_photos ::
  "env \<Rightarrow> (string \<rightharpoonup> buffer) option \<Rightarrow> jval option \<Rightarrow> row async" where
  "upload_vendor_photos e fs_opt userId =
     (case fs_opt of
        None \<Rightarrow> throw TypeError_undefined
      | Some fs \<Rightarrow>
          await (upload_if_present e fs ''personal_photo'' ''personal.jpg'' userId ''vendor'' Map.empty)
            (\<lambda>p1. await (upload_if_present e fs ''aadhar_photo'' ''aadhar.jpg'' userId ''vendor'' p1)
              (\<lambda>p2. upload_if_present e fs ''cart_photo'' ''cart.jpg'' userId ''vendor'' p2)))"

text \<open>\<^verbatim>\<open>try { ... } catch (err) { res.status(500).json({ error: err.message }) }\<close>\<close>

definition try_catch :: "response async \<Rightarrow> supabase \<Rightarrow> response \<times> supabase" where
  "try_catch m s = (case m s of (Return r, s') \<Rightarrow> (r, s') | (Throw msg, s') \<Rightarrow> (json 500 (Error msg), s'))"

text \<open>\<^verbatim>\<open>app.post("/vendors")\<close>, lines 49 to 105.\<close>

definition post_vendors :: "env \<Rightarrow> request \<Rightarrow> supabase \<Rightarrow> response \<times> supabase" where
  "post_vendors e req =
     try_catch
       (let userId = body req ''user_id''; phone = body req ''phone'' in
        await (resolve (db_maybeSingle e ''vendors'' ''user_id'' ''phone'' phone))
          (\<lambda>existing.
             case existing of
               Inl phoneError \<Rightarrow> return (json 400 (Error phoneError))
             | Inr (Some existingVendor) \<Rightarrow>
                 return (json 400 (Error ''Phone number already exists for another vendor''))
             | Inr None \<Rightarrow>
                 await (upload_vendor_photos e (files req) userId)
                   (\<lambda>photoUrls.
                      await (resolve (db_insert e ''vendors'' [body req ++ photoUrls]))
                        (\<lambda>inserted.
                           case inserted of
                             Inl error \<Rightarrow> return (json 400 (Error error))
                           | Inr data \<Rightarrow> return (json 200 (first_row data))))))"

text \<open>\<^verbatim>\<open>app.get("/vendors")\<close>, lines 109 to 113. The handler has no \<^verbatim>\<open>try\<close>.\<close>

definition get_vendors :: "env \<Rightarrow> supabase \<Rightarrow> response \<times> supabase" where
  "get_vendors e s =
     (case db_select e ''vendors'' ''*'' s of
        (Inl error, s') \<Rightarrow> (json 400 (Error error), s')
      | (Inr data, s') \<Rightarrow> (json 200 (Rows data), s'))"

text \<open>\<^verbatim>\<open>app.get("/vendors/:user_id")\<close>, lines 116 to 125. The handler has no \<^verbatim>\<open>try\<close>.\<close>

definition get_vendor :: "env \<Rightarrow> request \<Rightarrow> supabase \<Rightarrow> response \<times> supabase" where
  "get_vendor e req s =
     (let user_id = params_user_id req in
      case db_single e ''vendors'' ''*'' ''user_id'' (Some (JStr user_id)) s of
        (Inl error, s') \<Rightarrow> (json 400 (Error error), s')
      | (Inr data, s') \<Rightarrow> (json 200 (Row data), s'))"

text \<open>\<^verbatim>\<open>app.put("/vendors/:user_id")\<close>, lines 135 to 176.\<close>

definition put_vendors :: "env \<Rightarrow> request \<Rightarrow> supabase \<Rightarrow> response \<times> supabase" where
  "put_vendors e req =
     try_catch
       (let user_id = params_user_id req in
        await (upload_vendor_photos e (files req) (Some (JStr user_id)))
          (\<lambda>photoUrls.
             await (resolve (db_update e ''vendors'' (body req ++ photoUrls) ''user_id'' (Some (JStr user_id))))
               (\<lambda>updated.
                  case updated of
                    Inl error \<Rightarrow> return (json 400 (Error error))
                  | Inr data \<Rightarrow> return (json 200 (first_row data)))))"

section \<open>Bank account handlers\<close>

text \<open>
  \<^verbatim>\<open>let photoUrl = null; if (req.file) { photoUrl = await uploadToSupabase(req.file.buffer,
  "passbook.jpg", userId, "bank"); }\<close>, lines 207 to 215 and 257 to 266. \<open>None\<close> is
  \<^verbatim>\<open>null\<close>.
\<close>

definition upload_passbook_photo :: "env \<Rightarrow> buffer option \<Rightarrow> jval option \<Rightarrow> string option async" where
  "upload_passbook_photo e the_file userId =
     (case the_file of
        None \<Rightarrow> return None
      | Some buf \<Rightarrow>
          await (uploadToSupabase e buf ''passbook.jpg'' userId ''bank'')
            (\<lambda>url. return (Some url)))"

text \<open>The value \<^verbatim>\<open>photoUrl\<close> as a field: \<^verbatim>\<open>null\<close> or the URL.\<close>

fun url_value :: "string option \<Rightarrow> jval" where
  "url_value None = JNull"
| "url_value (Some url) = JStr url"

text \<open>\<^verbatim>\<open>app.post("/bank-accounts")\<close>, lines 188 to 228.\<close>

definition post_bank_accounts :: "env \<Rightarrow> request \<Rightarrow> supabase \<Rightarrow> response \<times> supabase" where
  "post_bank_accounts e req =
     try_catch
       (let userId = body req ''user_id''; accountNumber = body req ''account_number'' in
        await (resolve (db_maybeSingle e ''bank_accounts'' ''user_id'' ''account_number'' accountNumber))
          (\<lambda>existing.
             case existing of
               Inl accError \<Rightarrow> return (json 400 (Error accError))
             | Inr (Some existingAccount) \<Rightarrow>
                 return (json 400 (Error ''Account number already exists''))
             | Inr None \<Rightarrow>
                 await (upload_passbook_photo e (req_file req) userId)
                   (\<lambda>photoUrl.
                      await (resolve (db_insert e ''bank_accounts''
                               [(body req)(''passbook_photo'' \<mapsto> url_value photoUrl)]))
                        (\<lambda>inserted.
                           case inserted of
                             Inl error \<Rightarrow> return (json 400 (Error error))
                           | Inr data \<Rightarrow> return (json 200 (first_row data))))))"

text \<open>\<^verbatim>\<open>app.get("/bank-accounts")\<close>, lines 232 to 236. The handler has no \<^verbatim>\<open>try\<close>.\<close>

definition get_bank_accounts :: "env \<Rightarrow> supabase \<Rightarrow> response \<times> supabase" where
  "get_bank_accounts e s =
     (case db_select e ''bank_accounts'' ''*'' s of
        (Inl error, s') \<Rightarrow> (json 400 (Error error), s')
      | (Inr data, s') \<Rightarrow> (json 200 (Rows data), s'))"

text \<open>\<^verbatim>\<open>app.get("/bank-accounts/:user_id")\<close>, lines 239 to 248. The handler has no \<^verbatim>\<open>try\<close>.\<close>

definition get_bank_account :: "env \<Rightarrow> request \<Rightarrow> supabase \<Rightarrow> response \<times> supabase" where
  "get_bank_account e req s =
     (let user_id = params_user_id req in
      case db_single e ''bank_accounts'' ''*'' ''user_id'' (Some (JStr user_id)) s of
        (Inl error, s') \<Rightarrow> (json 400 (Error error), s')
      | (Inr data, s') \<Rightarrow> (json 200 (Row data), s'))"

text \<open>
  \<^verbatim>\<open>...(photoUrl && { passbook_photo: photoUrl })\<close>: \<^verbatim>\<open>null\<close> and the empty string are
  falsy and spread to nothing.
\<close>

fun passbook_patch :: "string option \<Rightarrow> row" where
  "passbook_patch None = Map.empty"
| "passbook_patch (Some url) = (if url = [] then Map.empty else [''passbook_photo'' \<mapsto> JStr url])"

text \<open>\<^verbatim>\<open>app.put("/bank-accounts/:user_id")\<close>, lines 254 to 279.\<close>

definition put_bank_accounts :: "env \<Rightarrow> request \<Rightarrow> supabase \<Rightarrow> response \<times> supabase" where
  "put_bank_accounts e req =
     try_catch
       (let user_id = params_user_id req in
        await (upload_passbook_photo e (req_file req) (Some (JStr user_id)))
          (\<lambda>photoUrl.
             await (resolve (db_update e ''bank_accounts'' (body req ++ passbook_patch photoUrl)
                      ''user_id'' (Some (JStr user_id))))
               (\<lambda>updated.
                  case updated of
                    Inl error \<Rightarrow> return (json 400 (Error error))
                  | Inr data \<Rightarrow> return (json 200 (first_row data)))))"

section \<open>Observing one request\<close>

text \<open>The calls a computation issued on the client while it ran, in order.\<close>

definition trace :: "(supabase \<Rightarrow> 'a \<times> supabase) \<Rightarrow> supabase \<Rightarrow> call list" where
  "trace handler s = drop (length (calls s)) (calls (snd (handler s)))"

fun is_upload :: "call \<Rightarrow> bool" where
  "is_upload (Upload bucket path bytes upsert ctype) = True"
| "is_upload c = False"

fun is_insert :: "call \<Rightarrow> bool" where
  "is_insert (Insert table rows) = True"
| "is_insert c = False"

fun is_update :: "call \<Rightarrow> bool" where
  "is_update (Update table patch column v) = True"
| "is_update c = False"

fun is_select :: "call \<Rightarrow> bool" where
  "is_select (SelectMaybeSingle table columns column v) = True"
| "is_select (SelectSingle table columns column v) = True"
| "is_select (SelectAll table columns) = True"
| "is_select c = False"

text \<open>
  One field of each row of a list, and, for one field, what the calls \<open>T\<close> send to the
  record store: the rows of an insert and the patch of an update are its writes.
\<close>

definition column_values :: "string \<Rightarrow> row list \<Rightarrow> jval option list" where
  "column_values field rows = map (\<lambda>r. r field) rows"

fun written :: "call \<Rightarrow> row list" where
  "written (Insert table rows) = rows"
| "written (Update table patch col v) = [patch]"
| "written c = []"

definition sent :: "string \<Rightarrow> call list \<Rightarrow> jval option list" where
  "sent field T = concat (map (\<lambda>c. column_values field (written c)) T)"

section \<open>Example environments and stores\<close>

text \<open>
  Services that accept every call, an object store that rejects every upload, and one that
  rejects the upload of the ID-proof photo of \<^verbatim>\<open>u3\<close> only.
\<close>

definition no_faults :: env where
  "no_faults = \<lparr>fault = (\<lambda>c. None),
                publicUrl = (\<lambda>bucket path. ''https://cdn.test/'' @ bucket @ ''/'' @ path)\<rparr>"

definition storage_down :: env where
  "storage_down = \<lparr>fault = (\<lambda>c. if is_upload c then Some ''storage unavailable'' else None),
                   publicUrl = (\<lambda>bucket path. ''https://cdn.test/'' @ bucket @ ''/'' @ path)\<rparr>"

definition aadhar_rejected :: env where
  "aadhar_rejected =
     \<lparr>fault = (\<lambda>c. if c = Upload ''photos'' ''u3/vendor/aadhar.jpg'' ''AADHAR'' True ''image/jpeg''
                     then Some ''payload too large'' else None),
      publicUrl = (\<lambda>bucket path. ''https://cdn.test/'' @ bucket @ ''/'' @ path)\<rparr>"

text \<open>A store with two vendors and two bank accounts, and an empty one.\<close>

definition vendor_u1 :: row where
  "vendor_u1 = [''user_id'' \<mapsto> JStr ''u1'', ''phone'' \<mapsto> JStr ''9999999999'',
                ''personal_photo'' \<mapsto> JStr ''https://cdn.test/photos/u1/vendor/personal.jpg'']"

definition vendor_u2 :: row where
  "vendor_u2 = [''user_id'' \<mapsto> JStr ''u2'', ''phone'' \<mapsto> JStr ''8888888888'']"

definition account_u1 :: row where
  "account_u1 = [''user_id'' \<mapsto> JStr ''u1'', ''account_number'' \<mapsto> JStr ''ACC1'',
                 ''passbook_photo'' \<mapsto> JStr ''https://cdn.test/photos/u1/bank/passbook.jpg'']"

definition account_u2 :: row where
  "account_u2 = [''user_id'' \<mapsto> JStr ''u2'', ''account_number'' \<mapsto> JStr ''ACC2'']"

definition store2 :: supabase where
  "store2 = \<lparr>tables = (\<lambda>t. if t = ''vendors'' then [vendor_u1, vendor_u2]
                          else if t = ''bank_accounts'' then [account_u1, account_u2] else []),
             objects = Map.empty, calls = []\<rparr>"

definition store0 :: supabase where
  "store0 = \<lparr>tables = (\<lambda>t. []), objects = Map.empty, calls = []\<rparr>"

text \<open>
  Requests: a create for \<^verbatim>\<open>u3\<close> with the phone and the account number of \<^verbatim>\<open>u1\<close>, two
  vendor files, a passbook file and a hand-typed value for two attachment fields; a create
  for \<^verbatim>\<open>u4\<close> with no file and a hand-typed passbook field; a create for \<^verbatim>\<open>u5\<close> with no
  file and a hand-typed \<^verbatim>\<open>cart_photo\<close>; an update of \<^verbatim>\<open>u2\<close> to the phone and the account number of
  \<^verbatim>\<open>u1\<close>, with a cart photo; an update of \<^verbatim>\<open>u1\<close> with no file and hand-typed attachment
  fields; an update of \<^verbatim>\<open>u1\<close> with a cart photo and a passbook photo; and a request for \<^verbatim>\<open>u9\<close>, whom no row names.
\<close>

definition create_u3 :: request where
  "create_u3 =
     \<lparr>params_user_id = [],
      body = [''user_id'' \<mapsto> JStr ''u3'', ''phone'' \<mapsto> JStr ''9999999999'',
              ''account_number'' \<mapsto> JStr ''ACC1'', ''personal_photo'' \<mapsto> JStr ''typed-by-hand'',
              ''passbook_photo'' \<mapsto> JStr ''typed-by-hand''],
      files = Some [''personal_photo'' \<mapsto> ''PERSONAL'', ''aadhar_photo'' \<mapsto> ''AADHAR''],
      req_file = Some ''PASSBOOK''\<rparr>"

definition create_u4 :: request where
  "create_u4 =
     \<lparr>params_user_id = [],
      body = [''user_id'' \<mapsto> JStr ''u4'', ''phone'' \<mapsto> JStr ''7777777777'',
              ''account_number'' \<mapsto> JStr ''ACC4'', ''passbook_photo'' \<mapsto> JStr ''typed-by-hand''],
      files = Some Map.empty,
      req_file = None\<rparr>"

definition create_u5 :: request where
  "create_u5 =
     \<lparr>params_user_id = [],
      body = [''user_id'' \<mapsto> JStr ''u5'', ''phone'' \<mapsto> JStr ''5555555555'',
              ''cart_photo'' \<mapsto> JStr ''typed-by-hand''],
      files = Some Map.empty,
      req_file = None\<rparr>"

definition update_u2 :: request where
  "update_u2 =
     \<lparr>params_user_id = ''u2'',
      body = [''phone'' \<mapsto> JStr ''9999999999'', ''account_number'' \<mapsto> JStr ''ACC1''],
      files = Some [''cart_photo'' \<mapsto> ''CART''],
      req_file = None\<rparr>"

definition update_u1 :: request where
  "update_u1 =
     \<lparr>params_user_id = ''u1'',
      body = [''personal_photo'' \<mapsto> JStr ''typed-by-hand'', ''passbook_photo'' \<mapsto> JStr ''typed-by-hand''],
      files = Some Map.empty,
      req_file = None\<rparr>"

definition update_u1_files :: request where
  "update_u1_files =
     \<lparr>params_user_id = ''u1'', body = Map.empty,
      files = Some [''cart_photo'' \<mapsto> ''CART''], req_file = Some ''PASSBOOK''\<rparr>"

definition request_u9 :: request where
  "request_u9 =
     \<lparr>params_user_id = ''u9'', body = [''phone'' \<mapsto> JStr ''6666666666''],
      files = Some Map.empty, req_file = None\<rparr>"

section \<open>Summaries of the upload steps\<close>

text \<open>
  The upload steps never read the client state: they append calls to the log and write
  objects. \<open>effect T D\<close> is that change of state, and \<open>upserts e T\<close> are the objects that
  the overwriting uploads among the calls \<open>T\<close> leave behind when the service accepts them,
  a later upload to a path replacing an earlier one.
\<close>

definition effect :: "call list \<Rightarrow> (string \<times> string \<rightharpoonup> stored_object) \<Rightarrow> supabase \<Rightarrow> supabase" where
  "effect T D s = s\<lparr>calls := calls s @ T, objects := objects s ++ D\<rparr>"

fun upserts :: "env \<Rightarrow> call list \<Rightarrow> (string \<times> string \<rightharpoonup> stored_object)" where
  "upserts e [] = Map.empty"
| "upserts e (Upload bucket path bytes upsert ctype # cs) =
     (if upsert \<and> fault e (Upload bucket path bytes upsert ctype) = None
      then [(bucket, path) \<mapsto> \<lparr>content = bytes, contentType = ctype\<rparr>] else Map.empty)
     ++ upserts e cs"
| "upserts e (c # cs) = upserts e cs"

text \<open>
  The blocks of \<open>upload_vendor_photos\<close> as a loop over the pairs of form field and file
  name, and what such a loop does, as a relation: \<open>slots_run e fs userId folder slots p r T\<close>
  holds when the blocks for \<open>slots\<close>, started with \<^verbatim>\<open>photoUrls\<close> equal to \<open>p\<close>, issue the
  calls \<open>T\<close> and end with the outcome \<open>r\<close>. Both serve the proofs only; the lemmas
  \<open>upload_vendor_photos_slots\<close> and \<open>upload_slots_run\<close> tie them to the handlers' code.
\<close>

fun upload_slots ::
  "env \<Rightarrow> (string \<rightharpoonup> buffer) \<Rightarrow> jval option \<Rightarrow> string \<Rightarrow> (string \<times> string) list \<Rightarrow> row \<Rightarrow> row async" where
  "upload_slots e fs userId folder [] photoUrls = return photoUrls"
| "upload_slots e fs userId folder ((field, fileName) # slots) photoUrls =
     await (upload_if_present e fs field fileName userId folder photoUrls)
       (upload_slots e fs userId folder slots)"

abbreviation vendor_slots :: "(string \<times> string) list" where
  "vendor_slots \<equiv>
     [(''personal_photo'', ''personal.jpg''), (''aadhar_photo'', ''aadhar.jpg''), (''cart_photo'', ''cart.jpg'')]"

abbreviation slot_path :: "jval option \<Rightarrow> string \<Rightarrow> string \<Rightarrow> string" where
  "slot_path userId folder fileName \<equiv> toString userId @ ''/'' @ folder @ ''/'' @ fileName"

inductive slots_run ::
  "env \<Rightarrow> (string \<rightharpoonup> buffer) \<Rightarrow> jval option \<Rightarrow> string \<Rightarrow> (string \<times> string) list \<Rightarrow> row \<Rightarrow>
   row outcome \<Rightarrow> call list \<Rightarrow> bool"
  for e :: env and fs :: "string \<rightharpoonup> buffer" and userId :: "jval option" and folder :: string where
  finished: "slots_run e fs userId folder [] p (Return p) []"
| absent: "fs field = None \<Longrightarrow> slots_run e fs userId folder slots p r T \<Longrightarrow>
     slots_run e fs userId folder ((field, fileName) # slots) p r T"
| failed: "fs field = Some buf \<Longrightarrow>
     fault e (Upload ''photos'' (slot_path userId folder fileName) buf True ''image/jpeg'') = Some msg \<Longrightarrow>
     slots_run e fs userId folder ((field, fileName) # slots) p (Throw msg)
       [Upload ''photos'' (slot_path userId folder fileName) buf True ''image/jpeg'']"
| uploaded: "fs field = Some buf \<Longrightarrow>
     fault e (Upload ''photos'' (slot_path userId folder fileName) buf True ''image/jpeg'') = None \<Longrightarrow>
     slots_run e fs userId folder slots
       (p(field \<mapsto> JStr (publicUrl e ''photos'' (slot_path userId folder fileName)))) r T \<Longrightarrow>
     slots_run e fs userId folder ((field, fileName) # slots) p r
       (Upload ''photos'' (slot_path userId folder fileName) buf True ''image/jpeg''
        # GetPublicUrl ''photos'' (slot_path userId folder fileName) # T)"

section \<open>Lemmas about the client and the upload steps\<close>

subsection \<open>State changes\<close>

lemma effect_simps [simp]:
  "calls (effect T D s) = calls s @ T"
  "objects (effect T D s) = objects s ++ D"
  "tables (effect T D s) = tables s"
  "effect T' D' (effect T D s) = effect (T @ T') (D ++ D') s"
  by (simp_all add: effect_def)

lemma effect_nothing: "effect [] Map.empty s = s"
  by (simp add: effect_def)

lemma upserts_append: "upserts e (T @ T') = upserts e T ++ upserts e T'"
  by (induction e T rule: upserts.induct) simp_all

lemma map_add_twice: "(m ++ d) ++ d = m ++ d"
  by (rule ext) (simp add: map_add_def split: option.splits)

lemma trace_effect: "snd (h s) = effect T D s \<Longrightarrow> trace h s = T"
  by (simp add: trace_def)

lemma await_return: "await m return = m"
  by (rule ext) (simp add: await_def resolve_def return_def split: prod.splits outcome.splits)

lemma upserts_dom:
  "upserts e T (b, p) = Some obj \<Longrightarrow> \<exists>bytes u ct. Upload b p bytes u ct \<in> set T"
  by (induction e T rule: upserts.induct) (fastforce split: if_splits)+

subsection \<open>Rows, patches and what the calls send\<close>


lemma no_match_unchanged:
  "filter (eq_filter col v) rows = [] \<Longrightarrow> map (apply_patch patch col v) rows = rows"
  by (simp add: filter_empty_conv apply_patch_def map_idI)

lemma apply_patch_twice:
  "apply_patch patch col v (apply_patch patch col v r) = apply_patch patch col v r"
  by (simp add: apply_patch_def map_add_twice)

lemma sent_append: "sent field (T @ T') = sent field T @ sent field T'"
  by (simp add: sent_def)

lemma sent_Cons: "sent field (c # T) = column_values field (written c) @ sent field T"
  by (simp add: sent_def)

lemma sent_write:
  "sent field [Update table patch col v] = [patch field]"
  "sent field [Insert table rows] = column_values field rows"
  by (simp_all add: sent_def column_values_def)

lemma column_values_patched:
  "patch field = None \<Longrightarrow>
   column_values field (map (apply_patch patch col v) rows) = column_values field rows"
  by (simp add: column_values_def apply_patch_def map_add_def)

subsection \<open>The upload blocks as a run over the slots\<close>

lemma upload_if_present_run:
  "upload_if_present e fs field fn uid folder p s =
     (case fs field of
        None \<Rightarrow> (Return p, s)
      | Some buf \<Rightarrow>
         (case fault e (Upload ''photos'' (slot_path uid folder fn) buf True ''image/jpeg'') of
            Some msg \<Rightarrow> (Throw msg, effect [Upload ''photos'' (slot_path uid folder fn) buf True ''image/jpeg''] Map.empty s)
          | None \<Rightarrow> (Return (p(field \<mapsto> JStr (publicUrl e ''photos'' (slot_path uid folder fn)))),
                 effect [Upload ''photos'' (slot_path uid folder fn) buf True ''image/jpeg'',
                         GetPublicUrl ''photos'' (slot_path uid folder fn)]
                        [(''photos'', slot_path uid folder fn) \<mapsto> \<lparr>content = buf, contentType = ''image/jpeg''\<rparr>] s)))"
  by (simp add: upload_if_present_def uploadToSupabase_def storage_upload_def storage_getPublicUrl_def issue_def effect_def Let_def
       await_def resolve_def return_def split: option.splits)

lemma upload_vendor_photos_slots:
  "upload_vendor_photos e (Some fs) uid =
     upload_slots e fs uid ''vendor''
       [(''personal_photo'', ''personal.jpg''), (''aadhar_photo'', ''aadhar.jpg''), (''cart_photo'', ''cart.jpg'')]
       Map.empty"
proof -
  have nil: "upload_slots e fs uid ''vendor'' [] = return"
    by (rule ext) simp
  have cons: "upload_slots e fs uid ''vendor'' ((field, fn) # sl) =
      (\<lambda>p. await (upload_if_present e fs field fn uid ''vendor'' p) (upload_slots e fs uid ''vendor'' sl))"
    for field fn sl
    by (rule ext) simp
  show ?thesis
    by (simp add: upload_vendor_photos_def nil cons await_return)
qed

lemma upload_slots_run:
  "\<exists>r T. slots_run e fs uid folder sl p r T \<and>
     (\<forall>s. upload_slots e fs uid folder sl p s = (r, effect T (upserts e T) s))"
proof (induction sl arbitrary: p)
  case Nil
  have "slots_run e fs uid folder [] p (Return p) []" by (rule slots_run.finished)
  then show ?case by (auto simp: return_def effect_nothing)
next
  case (Cons a sl)
  obtain field fn where a: "a = (field, fn)" by (cases a)
  let ?c = "Upload ''photos'' (slot_path uid folder fn) buf True ''image/jpeg''"
  show ?case
  proof (cases "fs field")
    case None
    from Cons.IH [of p] obtain r T where
      "slots_run e fs uid folder sl p r T"
      "\<forall>s. upload_slots e fs uid folder sl p s = (r, effect T (upserts e T) s)" by blast
    with None show ?thesis
      unfolding a by (auto simp: await_def resolve_def upload_if_present_run intro!: slots_run.absent)
  next
    case (Some buf)
    let ?c = "Upload ''photos'' (slot_path uid folder fn) buf True ''image/jpeg''"
    show ?thesis
    proof (cases "fault e ?c")
      case None
      from Cons.IH [of "p(field \<mapsto> JStr (publicUrl e ''photos'' (slot_path uid folder fn)))"]
      obtain r T where rt:
        "slots_run e fs uid folder sl (p(field \<mapsto> JStr (publicUrl e ''photos'' (slot_path uid folder fn)))) r T"
        "\<forall>s. upload_slots e fs uid folder sl (p(field \<mapsto> JStr (publicUrl e ''photos'' (slot_path uid folder fn)))) s
              = (r, effect T (upserts e T) s)" by blast
      have "slots_run e fs uid folder ((field, fn) # sl) p r (?c # GetPublicUrl ''photos'' (slot_path uid folder fn) # T)"
        using Some None rt(1) by (rule slots_run.uploaded)
      moreover have "\<forall>s. upload_slots e fs uid folder ((field, fn) # sl) p s =
          (r, effect (?c # GetPublicUrl ''photos'' (slot_path uid folder fn) # T)
                (upserts e (?c # GetPublicUrl ''photos'' (slot_path uid folder fn) # T)) s)"
        using Some None rt(2) by (simp add: await_def resolve_def upload_if_present_run)
      ultimately show ?thesis unfolding a by blast
    next
      case (Some msg)
      have "slots_run e fs uid folder ((field, fn) # sl) p (Throw msg) [?c]"
        using \<open>fs field = Some buf\<close> Some by (rule slots_run.failed)
      moreover have "\<forall>s. upload_slots e fs uid folder ((field, fn) # sl) p s =
          (Throw msg, effect [?c] (upserts e [?c]) s)"
        using \<open>fs field = Some buf\<close> Some by (simp add: await_def resolve_def upload_if_present_run)
      ultimately show ?thesis unfolding a by blast
    qed
  qed
qed

lemma upload_vendor_photos_run:
  "\<exists>r T. slots_run e fs uid ''vendor'' vendor_slots Map.empty r T \<and>
     (\<forall>s. upload_vendor_photos e (Some fs) uid s = (r, effect T (upserts e T) s))"
  using upload_slots_run [of e fs uid "''vendor''" vendor_slots Map.empty]
  unfolding upload_vendor_photos_slots .

lemma upload_passbook_photo_run:
  "upload_passbook_photo e f uid s =
     (case f of
        None \<Rightarrow> (Return None, s)
      | Some buf \<Rightarrow>
         (case fault e (Upload ''photos'' (slot_path uid ''bank'' ''passbook.jpg'') buf True ''image/jpeg'') of
            Some msg \<Rightarrow> (Throw msg, effect [Upload ''photos'' (slot_path uid ''bank'' ''passbook.jpg'') buf True ''image/jpeg''] Map.empty s)
          | None \<Rightarrow> (Return (Some (publicUrl e ''photos'' (slot_path uid ''bank'' ''passbook.jpg''))),
                 effect [Upload ''photos'' (slot_path uid ''bank'' ''passbook.jpg'') buf True ''image/jpeg'',
                         GetPublicUrl ''photos'' (slot_path uid ''bank'' ''passbook.jpg'')]
                        [(''photos'', slot_path uid ''bank'' ''passbook.jpg'') \<mapsto> \<lparr>content = buf, contentType = ''image/jpeg''\<rparr>] s)))"
  by (simp add: upload_passbook_photo_def uploadToSupabase_def storage_upload_def storage_getPublicUrl_def issue_def effect_def Let_def
       await_def resolve_def return_def split: option.splits)

lemma upload_passbook_photo_cases:
  "\<exists>r T. (\<forall>s. upload_passbook_photo e f uid s = (r, effect T (upserts e T) s)) \<and>
     (f = None \<and> r = Return None \<and> T = [] \<or>
      (\<exists>buf msg. f = Some buf \<and>
         fault e (Upload ''photos'' (slot_path uid ''bank'' ''passbook.jpg'') buf True ''image/jpeg'') = Some msg \<and>
         r = Throw msg \<and> T = [Upload ''photos'' (slot_path uid ''bank'' ''passbook.jpg'') buf True ''image/jpeg'']) \<or>
      (\<exists>buf. f = Some buf \<and>
         fault e (Upload ''photos'' (slot_path uid ''bank'' ''passbook.jpg'') buf True ''image/jpeg'') = None \<and>
         r = Return (Some (publicUrl e ''photos'' (slot_path uid ''bank'' ''passbook.jpg''))) \<and>
         T = [Upload ''photos'' (slot_path uid ''bank'' ''passbook.jpg'') buf True ''image/jpeg'',
              GetPublicUrl ''photos'' (slot_path uid ''bank'' ''passbook.jpg'')]))"
proof (cases f)
  case None
  then show ?thesis
    by (intro exI [of _ "Return None"] exI [of _ "[]"]) (simp add: upload_passbook_photo_run effect_nothing)
next
  case (Some buf)
  let ?c = "Upload ''photos'' (slot_path uid ''bank'' ''passbook.jpg'') buf True ''image/jpeg''"
  show ?thesis
  proof (cases "fault e ?c")
    case None
    with Some show ?thesis
      by (intro exI [of _ "Return (Some (publicUrl e ''photos'' (slot_path uid ''bank'' ''passbook.jpg'')))"]
            exI [of _ "[?c, GetPublicUrl ''photos'' (slot_path uid ''bank'' ''passbook.jpg'')]"])
         (simp add: upload_passbook_photo_run)
  next
    case (Some msg)
    with \<open>f = Some buf\<close> show ?thesis
      by (intro exI [of _ "Throw msg"] exI [of _ "[?c]"]) (simp add: upload_passbook_photo_run)
  qed
qed

subsection \<open>What a run of the upload blocks guarantees\<close>

lemma slots_run_calls:
  "slots_run e fs uid folder sl p r T \<Longrightarrow> c \<in> set T \<Longrightarrow>
   \<exists>field fn. (field, fn) \<in> set sl \<and>
     (c = GetPublicUrl ''photos'' (slot_path uid folder fn) \<or>
      (\<exists>buf. fs field = Some buf \<and> c = Upload ''photos'' (slot_path uid folder fn) buf True ''image/jpeg''))"
  by (induction rule: slots_run.induct) auto

lemma slots_run_Throw:
  "slots_run e fs uid folder sl p r T \<Longrightarrow> r = Throw msg \<Longrightarrow>
   \<exists>c \<in> set T. is_upload c \<and> fault e c = Some msg"
  by (induction rule: slots_run.induct) auto

lemma slots_run_Return:
  "slots_run e fs uid folder sl p r T \<Longrightarrow> r = Return m \<Longrightarrow> c \<in> set T \<Longrightarrow> is_upload c \<Longrightarrow>
   fault e c = None"
  by (induction rule: slots_run.induct) auto

lemma slots_run_untouched:
  "slots_run e fs uid folder sl p r T \<Longrightarrow> r = Return m \<Longrightarrow>
   field \<notin> fst ` set sl \<or> fs field = None \<Longrightarrow> m field = p field"
  by (induction rule: slots_run.induct) auto

lemma slots_run_url:
  "slots_run e fs uid folder sl p r T \<Longrightarrow> r = Return m \<Longrightarrow> field \<in> fst ` set sl \<Longrightarrow>
   fs field = Some buf \<Longrightarrow>
   \<exists>fn. (field, fn) \<in> set sl \<and>
        m field = Some (JStr (publicUrl e ''photos'' (slot_path uid folder fn))) \<and>
        Upload ''photos'' (slot_path uid folder fn) buf True ''image/jpeg'' \<in> set T"
proof (induction rule: slots_run.induct)
  case (uploaded field' buf' fn slots p r T)
  show ?case
  proof (cases "field \<in> fst ` set slots")
    case True
    with uploaded show ?thesis by auto
  next
    case False
    with uploaded have "field' = field" by auto
    moreover have "m field = (p(field' \<mapsto> JStr (publicUrl e ''photos'' (slot_path uid folder fn)))) field"
      using uploaded.hyps(3) uploaded.prems(1) False by (rule slots_run_untouched [OF _ _ disjI1])
    ultimately show ?thesis using uploaded by auto
  qed
qed auto

lemma slots_run_stored:
  "slots_run e fs uid folder sl p r T \<Longrightarrow> distinct (map snd sl) \<Longrightarrow>
   Upload b path bytes u ct \<in> set T \<Longrightarrow> fault e (Upload b path bytes u ct) = None \<Longrightarrow>
   upserts e T (b, path) = Some \<lparr>content = bytes, contentType = ct\<rparr>"
proof (induction rule: slots_run.induct)
  case (uploaded field buf fn slots p r T)
  let ?c = "Upload ''photos'' (slot_path uid folder fn) buf True ''image/jpeg''"
  have fresh: "upserts e T (''photos'', slot_path uid folder fn) = None"
  proof (rule ccontr)
    assume "upserts e T (''photos'', slot_path uid folder fn) \<noteq> None"
    then obtain bytes' u' ct' where "Upload ''photos'' (slot_path uid folder fn) bytes' u' ct' \<in> set T"
      using upserts_dom by fastforce
    from slots_run_calls [OF uploaded.hyps(3) this] have "fn \<in> snd ` set slots" by force
    with uploaded.prems(1) show False by simp
  qed
  show ?case
  proof (cases "Upload b path bytes u ct \<in> set T")
    case True
    with uploaded have "upserts e T (b, path) = Some \<lparr>content = bytes, contentType = ct\<rparr>" by simp
    then show ?thesis by (simp add: map_add_def)
  next
    case False
    with uploaded.prems have "Upload b path bytes u ct = ?c" by auto
    with uploaded.hyps(2) fresh show ?thesis by (simp add: map_add_def)
  qed
qed auto

lemma slots_run_no_record_call:
  assumes "slots_run e fs uid folder sl p r T" and "c \<in> set T"
  shows "\<not> is_select c" and "\<not> is_insert c" and "\<not> is_update c" and "written c = []"
  using slots_run_calls [OF assms] by auto

lemma slots_run_filters:
  assumes "slots_run e fs uid folder sl p r T"
  shows "filter is_select T = []" and "filter is_insert T = []" and "filter is_update T = []"
    and "sent field T = []"
  using slots_run_no_record_call [OF assms]
  by (simp_all add: filter_empty_conv sent_def column_values_def)

lemma vendor_slots_distinct: "distinct (map snd vendor_slots)"
  by simp

subsection \<open>The handlers in terms of their upload steps\<close>

lemma db_update_run:
  "db_update e table patch column v s =
     (case fault e (Update table patch column v) of
        Some msg \<Rightarrow> (Inl msg, effect [Update table patch column v] Map.empty s)
      | None \<Rightarrow>
          (Inr (map (\<lambda>r. r ++ patch) (filter (eq_filter column v) (tables s table))),
           (effect [Update table patch column v] Map.empty s)
             \<lparr>tables := (tables s)(table := map (apply_patch patch column v) (tables s table))\<rparr>))"
  by (simp add: db_update_def issue_def effect_def Let_def split: option.splits)

lemma db_insert_run:
  "db_insert e table rows s =
     (case fault e (Insert table rows) of
        Some msg \<Rightarrow> (Inl msg, effect [Insert table rows] Map.empty s)
      | None \<Rightarrow>
          (Inr rows,
           (effect [Insert table rows] Map.empty s)\<lparr>tables := (tables s)(table := tables s table @ rows)\<rparr>))"
  by (simp add: db_insert_def issue_def effect_def Let_def split: option.splits)

lemma put_vendors_undefined:
  "files req = None \<Longrightarrow> put_vendors e req s = (json 500 (Error TypeError_undefined), s)"
  by (simp add: put_vendors_def try_catch_def await_def resolve_def upload_vendor_photos_def throw_def)

lemma put_vendors_run:
  assumes "files req = Some fs"
  shows "\<exists>r T. slots_run e fs (Some (JStr (params_user_id req))) ''vendor'' vendor_slots Map.empty r T \<and>
    (\<forall>s. put_vendors e req s =
       (case r of
          Throw msg \<Rightarrow> (json 500 (Error msg), effect T (upserts e T) s)
        | Return photoUrls \<Rightarrow>
           (case fault e (Update ''vendors'' (body req ++ photoUrls) ''user_id'' (Some (JStr (params_user_id req)))) of
              Some msg \<Rightarrow>
                (json 400 (Error msg),
                 effect (T @ [Update ''vendors'' (body req ++ photoUrls) ''user_id'' (Some (JStr (params_user_id req)))])
                   (upserts e T) s)
            | None \<Rightarrow>
                (json 200 (first_row (map (\<lambda>r. r ++ (body req ++ photoUrls))
                     (filter (eq_filter ''user_id'' (Some (JStr (params_user_id req)))) (tables s ''vendors'')))),
                 (effect (T @ [Update ''vendors'' (body req ++ photoUrls) ''user_id'' (Some (JStr (params_user_id req)))])
                   (upserts e T) s)
                 \<lparr>tables := (tables s)(''vendors'' :=
                     map (apply_patch (body req ++ photoUrls) ''user_id'' (Some (JStr (params_user_id req))))
                       (tables s ''vendors''))\<rparr>))))"
  using upload_vendor_photos_run [of e fs "Some (JStr (params_user_id req))"]
  apply (elim exE conjE)
  apply (rule exI, rule exI, rule conjI, assumption)
  apply (simp add: put_vendors_def try_catch_def await_def resolve_def assms db_update_run return_def Let_def
          split: outcome.splits option.splits)
  done

lemma put_bank_accounts_run:
  "\<exists>r T.
     (req_file req = None \<and> r = Return None \<and> T = [] \<or>
      (\<exists>buf msg. req_file req = Some buf \<and>
         fault e (Upload ''photos'' (params_user_id req @ ''/bank/passbook.jpg'') buf True ''image/jpeg'') = Some msg \<and>
         r = Throw msg \<and> T = [Upload ''photos'' (params_user_id req @ ''/bank/passbook.jpg'') buf True ''image/jpeg'']) \<or>
      (\<exists>buf. req_file req = Some buf \<and>
         fault e (Upload ''photos'' (params_user_id req @ ''/bank/passbook.jpg'') buf True ''image/jpeg'') = None \<and>
         r = Return (Some (publicUrl e ''photos'' (params_user_id req @ ''/bank/passbook.jpg''))) \<and>
         T = [Upload ''photos'' (params_user_id req @ ''/bank/passbook.jpg'') buf True ''image/jpeg'',
              GetPublicUrl ''photos'' (params_user_id req @ ''/bank/passbook.jpg'')])) \<and>
    (\<forall>s. put_bank_accounts e req s =
       (case r of
          Throw msg \<Rightarrow> (json 500 (Error msg), effect T (upserts e T) s)
        | Return photoUrl \<Rightarrow>
           (case fault e (Update ''bank_accounts'' (body req ++ passbook_patch photoUrl) ''user_id''
                            (Some (JStr (params_user_id req)))) of
              Some msg \<Rightarrow>
                (json 400 (Error msg),
                 effect (T @ [Update ''bank_accounts'' (body req ++ passbook_patch photoUrl) ''user_id''
                                (Some (JStr (params_user_id req)))])
                   (upserts e T) s)
            | None \<Rightarrow>
                (json 200 (first_row (map (\<lambda>r. r ++ (body req ++ passbook_patch photoUrl))
                     (filter (eq_filter ''user_id'' (Some (JStr (params_user_id req)))) (tables s ''bank_accounts'')))),
                 (effect (T @ [Update ''bank_accounts'' (body req ++ passbook_patch photoUrl) ''user_id''
                                (Some (JStr (params_user_id req)))])
                   (upserts e T) s)
                 \<lparr>tables := (tables s)(''bank_accounts'' :=
                     map (apply_patch (body req ++ passbook_patch photoUrl) ''user_id'' (Some (JStr (params_user_id req))))
                       (tables s ''bank_accounts''))\<rparr>))))"
  using upload_passbook_photo_cases [of e "req_file req" "Some (JStr (params_user_id req))"]
  apply (elim exE conjE)
  apply (rule exI, rule exI, rule conjI)
   apply simp
  apply (simp add: put_bank_accounts_def try_catch_def await_def resolve_def db_update_run return_def Let_def
          split: outcome.splits option.splits)
  done

lemma post_vendors_stopped:
  assumes "fault e (SelectMaybeSingle ''vendors'' ''user_id'' ''phone'' (body req ''phone'')) \<noteq> None \<or>
           filter (eq_filter ''phone'' (body req ''phone'')) (tables s ''vendors'') \<noteq> []"
  shows "\<exists>msg. post_vendors e req s =
           (json 400 (Error msg),
            effect [SelectMaybeSingle ''vendors'' ''user_id'' ''phone'' (body req ''phone'')] Map.empty s)"
  using assms
  by (auto simp add: post_vendors_def try_catch_def await_def resolve_def db_maybeSingle_def return_def Let_def
       issue_def effect_def split: option.splits list.splits)

lemma post_vendors_undefined:
  assumes "fault e (SelectMaybeSingle ''vendors'' ''user_id'' ''phone'' (body req ''phone'')) = None"
    and "filter (eq_filter ''phone'' (body req ''phone'')) (tables s ''vendors'') = []"
    and "files req = None"
  shows "post_vendors e req s =
           (json 500 (Error TypeError_undefined),
            effect [SelectMaybeSingle ''vendors'' ''user_id'' ''phone'' (body req ''phone'')] Map.empty s)"
  using assms
  by (simp add: post_vendors_def try_catch_def await_def resolve_def db_maybeSingle_def return_def Let_def
       upload_vendor_photos_def throw_def issue_def effect_def)

lemma post_vendors_run:
  assumes "fault e (SelectMaybeSingle ''vendors'' ''user_id'' ''phone'' (body req ''phone'')) = None"
    and "filter (eq_filter ''phone'' (body req ''phone'')) (tables s ''vendors'') = []"
    and "files req = Some fs"
  shows "\<exists>r T. slots_run e fs (body req ''user_id'') ''vendor'' vendor_slots Map.empty r T \<and>
    post_vendors e req s =
       (case r of
          Throw msg \<Rightarrow>
            (json 500 (Error msg),
             effect (SelectMaybeSingle ''vendors'' ''user_id'' ''phone'' (body req ''phone'') # T) (upserts e T) s)
        | Return photoUrls \<Rightarrow>
           (case fault e (Insert ''vendors'' [body req ++ photoUrls]) of
              Some msg \<Rightarrow>
                (json 400 (Error msg),
                 effect (SelectMaybeSingle ''vendors'' ''user_id'' ''phone'' (body req ''phone'') # T
                           @ [Insert ''vendors'' [body req ++ photoUrls]])
                   (upserts e T) s)
            | None \<Rightarrow>
                (json 200 (Row (body req ++ photoUrls)),
                 (effect (SelectMaybeSingle ''vendors'' ''user_id'' ''phone'' (body req ''phone'') # T
                           @ [Insert ''vendors'' [body req ++ photoUrls]])
                   (upserts e T) s)
                 \<lparr>tables := (tables s)(''vendors'' := tables s ''vendors'' @ [body req ++ photoUrls])\<rparr>)))"
  using upload_vendor_photos_run [of e fs "body req ''user_id''"]
  apply (elim exE conjE)
  apply (rule exI, rule exI, rule conjI, assumption)
  apply (simp add: post_vendors_def try_catch_def await_def resolve_def assms db_maybeSingle_def db_insert_run return_def Let_def
          issue_def effect_def split: outcome.splits option.splits)
  done

lemma post_bank_accounts_stopped:
  assumes "fault e (SelectMaybeSingle ''bank_accounts'' ''user_id'' ''account_number'' (body req ''account_number'')) \<noteq> None \<or>
           filter (eq_filter ''account_number'' (body req ''account_number'')) (tables s ''bank_accounts'') \<noteq> []"
  shows "\<exists>msg. post_bank_accounts e req s =
           (json 400 (Error msg),
            effect [SelectMaybeSingle ''bank_accounts'' ''user_id'' ''account_number'' (body req ''account_number'')]
              Map.empty s)"
  using assms
  by (auto simp add: post_bank_accounts_def try_catch_def await_def resolve_def db_maybeSingle_def return_def Let_def
       issue_def effect_def split: option.splits list.splits)

lemma post_bank_accounts_run:
  assumes "fault e (SelectMaybeSingle ''bank_accounts'' ''user_id'' ''account_number'' (body req ''account_number'')) = None"
    and "filter (eq_filter ''account_number'' (body req ''account_number'')) (tables s ''bank_accounts'') = []"
  shows "\<exists>r T.
     (req_file req = None \<and> r = Return None \<and> T = [] \<or>
      (\<exists>buf msg. req_file req = Some buf \<and>
         fault e (Upload ''photos'' (slot_path (body req ''user_id'') ''bank'' ''passbook.jpg'') buf True ''image/jpeg'')
           = Some msg \<and>
         r = Throw msg \<and>
         T = [Upload ''photos'' (slot_path (body req ''user_id'') ''bank'' ''passbook.jpg'') buf True ''image/jpeg'']) \<or>
      (\<exists>buf. req_file req = Some buf \<and>
         fault e (Upload ''photos'' (slot_path (body req ''user_id'') ''bank'' ''passbook.jpg'') buf True ''image/jpeg'')
           = None \<and>
         r = Return (Some (publicUrl e ''photos'' (slot_path (body req ''user_id'') ''bank'' ''passbook.jpg''))) \<and>
         T = [Upload ''photos'' (slot_path (body req ''user_id'') ''bank'' ''passbook.jpg'') buf True ''image/jpeg'',
              GetPublicUrl ''photos'' (slot_path (body req ''user_id'') ''bank'' ''passbook.jpg'')])) \<and>
    post_bank_accounts e req s =
       (case r of
          Throw msg \<Rightarrow>
            (json 500 (Error msg),
             effect (SelectMaybeSingle ''bank_accounts'' ''user_id'' ''account_number'' (body req ''account_number'') # T)
               (upserts e T) s)
        | Return photoUrl \<Rightarrow>
           (case fault e (Insert ''bank_accounts'' [(body req)(''passbook_photo'' \<mapsto> url_value photoUrl)]) of
              Some msg \<Rightarrow>
                (json 400 (Error msg),
                 effect (SelectMaybeSingle ''bank_accounts'' ''user_id'' ''account_number'' (body req ''account_number'') # T
                           @ [Insert ''bank_accounts'' [(body req)(''passbook_photo'' \<mapsto> url_value photoUrl)]])
                   (upserts e T) s)
            | None \<Rightarrow>
                (json 200 (Row ((body req)(''passbook_photo'' \<mapsto> url_value photoUrl))),
                 (effect (SelectMaybeSingle ''bank_accounts'' ''user_id'' ''account_number'' (body req ''account_number'') # T
                           @ [Insert ''bank_accounts'' [(body req)(''passbook_photo'' \<mapsto> url_value photoUrl)]])
                   (upserts e T) s)
                 \<lparr>tables := (tables s)(''bank_accounts'' :=
                     tables s ''bank_accounts'' @ [(body req)(''passbook_photo'' \<mapsto> url_value photoUrl)])\<rparr>)))"
  using upload_passbook_photo_cases [of e "req_file req" "body req ''user_id''"]
  apply (elim exE conjE)
  apply (rule exI, rule exI, rule conjI, assumption)
  apply (simp add: post_bank_accounts_def try_catch_def await_def resolve_def assms db_maybeSingle_def db_insert_run return_def
          Let_def issue_def effect_def split: outcome.splits option.splits)
  done

subsection \<open>The outcomes of each handler: calls, response, rows and objects\<close>

lemma post_vendors_cases [case_names stopped undefined thrown rejected inserted]:
  obtains (stopped) msg where
      "fault e (SelectMaybeSingle ''vendors'' ''user_id'' ''phone'' (body req ''phone'')) \<noteq> None \<or>
       filter (eq_filter ''phone'' (body req ''phone'')) (tables s ''vendors'') \<noteq> []"
      "trace (post_vendors e req) s = [SelectMaybeSingle ''vendors'' ''user_id'' ''phone'' (body req ''phone'')]"
      "fst (post_vendors e req s) = json 400 (Error msg)"
      "tables (snd (post_vendors e req s)) = tables s"
      "objects (snd (post_vendors e req s)) = objects s"
  | (undefined)
      "files req = None"
      "trace (post_vendors e req) s = [SelectMaybeSingle ''vendors'' ''user_id'' ''phone'' (body req ''phone'')]"
      "fst (post_vendors e req s) = json 500 (Error TypeError_undefined)"
      "tables (snd (post_vendors e req s)) = tables s"
      "objects (snd (post_vendors e req s)) = objects s"
  | (thrown) fs msg T where
      "files req = Some fs"
      "slots_run e fs (body req ''user_id'') ''vendor'' vendor_slots Map.empty (Throw msg) T"
      "trace (post_vendors e req) s = SelectMaybeSingle ''vendors'' ''user_id'' ''phone'' (body req ''phone'') # T"
      "fst (post_vendors e req s) = json 500 (Error msg)"
      "tables (snd (post_vendors e req s)) = tables s"
      "objects (snd (post_vendors e req s)) = objects s ++ upserts e T"
  | (rejected) fs photoUrls T msg where
      "files req = Some fs"
      "slots_run e fs (body req ''user_id'') ''vendor'' vendor_slots Map.empty (Return photoUrls) T"
      "fault e (Insert ''vendors'' [body req ++ photoUrls]) = Some msg"
      "trace (post_vendors e req) s =
         SelectMaybeSingle ''vendors'' ''user_id'' ''phone'' (body req ''phone'') # T
           @ [Insert ''vendors'' [body req ++ photoUrls]]"
      "fst (post_vendors e req s) = json 400 (Error msg)"
      "tables (snd (post_vendors e req s)) = tables s"
      "objects (snd (post_vendors e req s)) = objects s ++ upserts e T"
  | (inserted) fs photoUrls T where
      "files req = Some fs"
      "slots_run e fs (body req ''user_id'') ''vendor'' vendor_slots Map.empty (Return photoUrls) T"
      "fault e (Insert ''vendors'' [body req ++ photoUrls]) = None"
      "trace (post_vendors e req) s =
         SelectMaybeSingle ''vendors'' ''user_id'' ''phone'' (body req ''phone'') # T
           @ [Insert ''vendors'' [body req ++ photoUrls]]"
      "fst (post_vendors e req s) = json 200 (Row (body req ++ photoUrls))"
      "tables (snd (post_vendors e req s)) =
         (tables s)(''vendors'' := tables s ''vendors'' @ [body req ++ photoUrls])"
      "objects (snd (post_vendors e req s)) = objects s ++ upserts e T"
proof (cases "fault e (SelectMaybeSingle ''vendors'' ''user_id'' ''phone'' (body req ''phone'')) = None \<and>
    filter (eq_filter ''phone'' (body req ''phone'')) (tables s ''vendors'') = []")
  case False
  then have no: "fault e (SelectMaybeSingle ''vendors'' ''user_id'' ''phone'' (body req ''phone'')) \<noteq> None \<or>
       filter (eq_filter ''phone'' (body req ''phone'')) (tables s ''vendors'') \<noteq> []" by auto
  from post_vendors_stopped [OF this] obtain msg where
    "post_vendors e req s =
       (json 400 (Error msg),
        effect [SelectMaybeSingle ''vendors'' ''user_id'' ''phone'' (body req ''phone'')] Map.empty s)" by blast
  then show ?thesis
    by (intro stopped [of msg, OF no]) (simp_all add: trace_def)
next
  case True
  then have pass: "fault e (SelectMaybeSingle ''vendors'' ''user_id'' ''phone'' (body req ''phone'')) = None"
    "filter (eq_filter ''phone'' (body req ''phone'')) (tables s ''vendors'') = []" by simp_all
  show ?thesis
  proof (cases "files req")
    case None
    from post_vendors_undefined [OF pass None] show ?thesis
      by (intro undefined [OF None]) (simp_all add: trace_def)
  next
    case (Some fs)
    from post_vendors_run [OF pass Some] obtain r T where
      run: "slots_run e fs (body req ''user_id'') ''vendor'' vendor_slots Map.empty r T"
      and out: "post_vendors e req s =
       (case r of
          Throw msg \<Rightarrow>
            (json 500 (Error msg),
             effect (SelectMaybeSingle ''vendors'' ''user_id'' ''phone'' (body req ''phone'') # T) (upserts e T) s)
        | Return photoUrls \<Rightarrow>
           (case fault e (Insert ''vendors'' [body req ++ photoUrls]) of
              Some msg \<Rightarrow>
                (json 400 (Error msg),
                 effect (SelectMaybeSingle ''vendors'' ''user_id'' ''phone'' (body req ''phone'') # T
                           @ [Insert ''vendors'' [body req ++ photoUrls]])
                   (upserts e T) s)
            | None \<Rightarrow>
                (json 200 (Row (body req ++ photoUrls)),
                 (effect (SelectMaybeSingle ''vendors'' ''user_id'' ''phone'' (body req ''phone'') # T
                           @ [Insert ''vendors'' [body req ++ photoUrls]])
                   (upserts e T) s)
                 \<lparr>tables := (tables s)(''vendors'' := tables s ''vendors'' @ [body req ++ photoUrls])\<rparr>)))"
      by blast
    show ?thesis
    proof (cases r)
      case (Throw msg)
      with run show ?thesis
        by (intro thrown [of fs msg T, OF Some]) (simp_all add: out trace_def)
    next
      case (Return photoUrls)
      show ?thesis
      proof (cases "fault e (Insert ''vendors'' [body req ++ photoUrls])")
        case None
        with run Return show ?thesis
          by (intro inserted [of fs photoUrls T, OF Some]) (simp_all add: out trace_def)
      next
        case (Some msg)
        with run Return show ?thesis
          by (intro rejected [of fs photoUrls T msg, OF \<open>files req = Some fs\<close>]) (simp_all add: out trace_def)
      qed
    qed
  qed
qed

lemma post_bank_accounts_cases [case_names stopped thrown rejected inserted]:
  obtains (stopped) msg where
      "fault e (SelectMaybeSingle ''bank_accounts'' ''user_id'' ''account_number'' (body req ''account_number'')) \<noteq> None \<or>
       filter (eq_filter ''account_number'' (body req ''account_number'')) (tables s ''bank_accounts'') \<noteq> []"
      "trace (post_bank_accounts e req) s = [SelectMaybeSingle ''bank_accounts'' ''user_id'' ''account_number'' (body req ''account_number'')]"
      "fst (post_bank_accounts e req s) = json 400 (Error msg)"
      "tables (snd (post_bank_accounts e req s)) = tables s"
      "objects (snd (post_bank_accounts e req s)) = objects s"
  | (thrown) buf msg where
      "req_file req = Some buf"
      "fault e (Upload ''photos'' (toString (body req ''user_id'') @ ''/bank/passbook.jpg'') buf True ''image/jpeg'') = Some msg"
      "trace (post_bank_accounts e req) s =
         [SelectMaybeSingle ''bank_accounts'' ''user_id'' ''account_number'' (body req ''account_number''),
          Upload ''photos'' (toString (body req ''user_id'') @ ''/bank/passbook.jpg'') buf True ''image/jpeg'']"
      "fst (post_bank_accounts e req s) = json 500 (Error msg)"
      "tables (snd (post_bank_accounts e req s)) = tables s"
      "objects (snd (post_bank_accounts e req s)) = objects s"
  | (rejected) photoUrl T msg where
      "req_file req = None \<and> photoUrl = None \<and> T = [] \<or>
       (\<exists>buf. req_file req = Some buf \<and>
          fault e (Upload ''photos'' (toString (body req ''user_id'') @ ''/bank/passbook.jpg'') buf True ''image/jpeg'') = None \<and>
          photoUrl = Some (publicUrl e ''photos'' (toString (body req ''user_id'') @ ''/bank/passbook.jpg'')) \<and>
          T = [Upload ''photos'' (toString (body req ''user_id'') @ ''/bank/passbook.jpg'') buf True ''image/jpeg'',
               GetPublicUrl ''photos'' (toString (body req ''user_id'') @ ''/bank/passbook.jpg'')])"
      "fault e (Insert ''bank_accounts'' [(body req)(''passbook_photo'' \<mapsto> url_value photoUrl)]) = Some msg"
      "trace (post_bank_accounts e req) s =
         SelectMaybeSingle ''bank_accounts'' ''user_id'' ''account_number'' (body req ''account_number'') # T
           @ [Insert ''bank_accounts'' [(body req)(''passbook_photo'' \<mapsto> url_value photoUrl)]]"
      "fst (post_bank_accounts e req s) = json 400 (Error msg)"
      "tables (snd (post_bank_accounts e req s)) = tables s"
      "objects (snd (post_bank_accounts e req s)) = objects s ++ upserts e T"
  | (inserted) photoUrl T where
      "req_file req = None \<and> photoUrl = None \<and> T = [] \<or>
       (\<exists>buf. req_file req = Some buf \<and>
          fault e (Upload ''photos'' (toString (body req ''user_id'') @ ''/bank/passbook.jpg'') buf True ''image/jpeg'') = None \<and>
          photoUrl = Some (publicUrl e ''photos'' (toString (body req ''user_id'') @ ''/bank/passbook.jpg'')) \<and>
          T = [Upload ''photos'' (toString (body req ''user_id'') @ ''/bank/passbook.jpg'') buf True ''image/jpeg'',
               GetPublicUrl ''photos'' (toString (body req ''user_id'') @ ''/bank/passbook.jpg'')])"
      "fault e (Insert ''bank_accounts'' [(body req)(''passbook_photo'' \<mapsto> url_value photoUrl)]) = None"
      "trace (post_bank_accounts e req) s =
         SelectMaybeSingle ''bank_accounts'' ''user_id'' ''account_number'' (body req ''account_number'') # T
           @ [Insert ''bank_accounts'' [(body req)(''passbook_photo'' \<mapsto> url_value photoUrl)]]"
      "fst (post_bank_accounts e req s) = json 200 (Row ((body req)(''passbook_photo'' \<mapsto> url_value photoUrl)))"
      "tables (snd (post_bank_accounts e req s)) =
         (tables s)(''bank_accounts'' :=
            tables s ''bank_accounts'' @ [(body req)(''passbook_photo'' \<mapsto> url_value photoUrl)])"
      "objects (snd (post_bank_accounts e req s)) = objects s ++ upserts e T"
proof (cases "fault e (SelectMaybeSingle ''bank_accounts'' ''user_id'' ''account_number'' (body req ''account_number'')) = None \<and>
    filter (eq_filter ''account_number'' (body req ''account_number'')) (tables s ''bank_accounts'') = []")
  case False
  then have no: "fault e (SelectMaybeSingle ''bank_accounts'' ''user_id'' ''account_number'' (body req ''account_number'')) \<noteq> None \<or>
       filter (eq_filter ''account_number'' (body req ''account_number'')) (tables s ''bank_accounts'') \<noteq> []"
    by auto
  from post_bank_accounts_stopped [OF this] obtain msg where
    "post_bank_accounts e req s = (json 400 (Error msg), effect [SelectMaybeSingle ''bank_accounts'' ''user_id'' ''account_number'' (body req ''account_number'')] Map.empty s)"
    by blast
  then show ?thesis
    by (intro stopped [of msg, OF no]) (simp_all add: trace_def)
next
  case True
  then have pass: "fault e (SelectMaybeSingle ''bank_accounts'' ''user_id'' ''account_number'' (body req ''account_number'')) = None"
    "filter (eq_filter ''account_number'' (body req ''account_number'')) (tables s ''bank_accounts'') = []"
    by simp_all
  from post_bank_accounts_run [OF pass] obtain r T where
    up: "req_file req = None \<and> r = Return None \<and> T = [] \<or>
      (\<exists>buf msg. req_file req = Some buf \<and>
         fault e (Upload ''photos'' (toString (body req ''user_id'') @ ''/bank/passbook.jpg'') buf True ''image/jpeg'') = Some msg \<and>
         r = Throw msg \<and>
         T = [Upload ''photos'' (toString (body req ''user_id'') @ ''/bank/passbook.jpg'') buf True ''image/jpeg'']) \<or>
      (\<exists>buf. req_file req = Some buf \<and>
         fault e (Upload ''photos'' (toString (body req ''user_id'') @ ''/bank/passbook.jpg'') buf True ''image/jpeg'') = None \<and>
         r = Return (Some (publicUrl e ''photos'' (toString (body req ''user_id'') @ ''/bank/passbook.jpg''))) \<and>
         T = [Upload ''photos'' (toString (body req ''user_id'') @ ''/bank/passbook.jpg'') buf True ''image/jpeg'',
              GetPublicUrl ''photos'' (toString (body req ''user_id'') @ ''/bank/passbook.jpg'')])"
    and out: "post_bank_accounts e req s =
       (case r of
          Throw msg \<Rightarrow>
            (json 500 (Error msg),
             effect (SelectMaybeSingle ''bank_accounts'' ''user_id'' ''account_number'' (body req ''account_number'') # T)
               (upserts e T) s)
        | Return photoUrl \<Rightarrow>
           (case fault e (Insert ''bank_accounts'' [(body req)(''passbook_photo'' \<mapsto> url_value photoUrl)]) of
              Some msg \<Rightarrow>
                (json 400 (Error msg),
                 effect (SelectMaybeSingle ''bank_accounts'' ''user_id'' ''account_number'' (body req ''account_number'') # T
                           @ [Insert ''bank_accounts'' [(body req)(''passbook_photo'' \<mapsto> url_value photoUrl)]])
                   (upserts e T) s)
            | None \<Rightarrow>
                (json 200 (Row ((body req)(''passbook_photo'' \<mapsto> url_value photoUrl))),
                 (effect (SelectMaybeSingle ''bank_accounts'' ''user_id'' ''account_number'' (body req ''account_number'') # T
                           @ [Insert ''bank_accounts'' [(body req)(''passbook_photo'' \<mapsto> url_value photoUrl)]])
                   (upserts e T) s)
                 \<lparr>tables := (tables s)(''bank_accounts'' :=
                     tables s ''bank_accounts'' @ [(body req)(''passbook_photo'' \<mapsto> url_value photoUrl)])\<rparr>)))"
    by auto
  show ?thesis
  proof (cases r)
    case (Throw msg)
    with up obtain buf where b: "req_file req = Some buf"
      "fault e (Upload ''photos'' (toString (body req ''user_id'') @ ''/bank/passbook.jpg'') buf True ''image/jpeg'') = Some msg"
      "T = [Upload ''photos'' (toString (body req ''user_id'') @ ''/bank/passbook.jpg'') buf True ''image/jpeg'']"
      by auto
    with Throw show ?thesis
      by (intro thrown [of buf msg]) (simp_all add: out trace_def)
  next
    case (Return photoUrl)
    with up have up': "req_file req = None \<and> photoUrl = None \<and> T = [] \<or>
       (\<exists>buf. req_file req = Some buf \<and>
          fault e (Upload ''photos'' (toString (body req ''user_id'') @ ''/bank/passbook.jpg'') buf True ''image/jpeg'') = None \<and>
          photoUrl = Some (publicUrl e ''photos'' (toString (body req ''user_id'') @ ''/bank/passbook.jpg'')) \<and>
          T = [Upload ''photos'' (toString (body req ''user_id'') @ ''/bank/passbook.jpg'') buf True ''image/jpeg'',
               GetPublicUrl ''photos'' (toString (body req ''user_id'') @ ''/bank/passbook.jpg'')])"
      by auto
    show ?thesis
    proof (cases "fault e (Insert ''bank_accounts'' [(body req)(''passbook_photo'' \<mapsto> url_value photoUrl)])")
      case None
      with Return show ?thesis
        by (intro inserted [of photoUrl T, OF up']) (simp_all add: out trace_def)
    next
      case (Some msg)
      with Return show ?thesis
        by (intro rejected [of photoUrl T msg, OF up']) (simp_all add: out trace_def)
    qed
  qed
qed

lemma put_vendors_cases [consumes 1, case_names thrown rejected updated]:
  assumes "files req = Some fs"
  obtains (thrown) msg T where
      "slots_run e fs (Some (JStr (params_user_id req))) ''vendor'' vendor_slots Map.empty (Throw msg) T"
      "trace (put_vendors e req) s = T"
      "fst (put_vendors e req s) = json 500 (Error msg)"
      "tables (snd (put_vendors e req s)) = tables s"
  | (rejected) photoUrls T msg where
      "slots_run e fs (Some (JStr (params_user_id req))) ''vendor'' vendor_slots Map.empty (Return photoUrls) T"
      "fault e (Update ''vendors'' (body req ++ photoUrls) ''user_id'' (Some (JStr (params_user_id req)))) = Some msg"
      "trace (put_vendors e req) s =
         T @ [Update ''vendors'' (body req ++ photoUrls) ''user_id'' (Some (JStr (params_user_id req)))]"
      "fst (put_vendors e req s) = json 400 (Error msg)"
      "tables (snd (put_vendors e req s)) = tables s"
  | (updated) photoUrls T where
      "slots_run e fs (Some (JStr (params_user_id req))) ''vendor'' vendor_slots Map.empty (Return photoUrls) T"
      "fault e (Update ''vendors'' (body req ++ photoUrls) ''user_id'' (Some (JStr (params_user_id req)))) = None"
      "trace (put_vendors e req) s =
         T @ [Update ''vendors'' (body req ++ photoUrls) ''user_id'' (Some (JStr (params_user_id req)))]"
      "fst (put_vendors e req s) =
         json 200 (first_row (map (\<lambda>r. r ++ (body req ++ photoUrls))
           (filter (eq_filter ''user_id'' (Some (JStr (params_user_id req)))) (tables s ''vendors''))))"
      "tables (snd (put_vendors e req s)) =
         (tables s)(''vendors'' :=
            map (apply_patch (body req ++ photoUrls) ''user_id'' (Some (JStr (params_user_id req))))
              (tables s ''vendors''))"
proof -
  from put_vendors_run [OF assms, of e] obtain r T where
    run: "slots_run e fs (Some (JStr (params_user_id req))) ''vendor'' vendor_slots Map.empty r T"
    and out: "\<And>s. put_vendors e req s =
       (case r of
          Throw msg \<Rightarrow> (json 500 (Error msg), effect T (upserts e T) s)
        | Return photoUrls \<Rightarrow>
           (case fault e (Update ''vendors'' (body req ++ photoUrls) ''user_id'' (Some (JStr (params_user_id req)))) of
              Some msg \<Rightarrow>
                (json 400 (Error msg),
                 effect (T @ [Update ''vendors'' (body req ++ photoUrls) ''user_id'' (Some (JStr (params_user_id req)))])
                   (upserts e T) s)
            | None \<Rightarrow>
                (json 200 (first_row (map (\<lambda>r. r ++ (body req ++ photoUrls))
                     (filter (eq_filter ''user_id'' (Some (JStr (params_user_id req)))) (tables s ''vendors'')))),
                 (effect (T @ [Update ''vendors'' (body req ++ photoUrls) ''user_id'' (Some (JStr (params_user_id req)))])
                   (upserts e T) s)
                 \<lparr>tables := (tables s)(''vendors'' :=
                     map (apply_patch (body req ++ photoUrls) ''user_id'' (Some (JStr (params_user_id req))))
                       (tables s ''vendors''))\<rparr>)))"
    by blast
  show thesis
  proof (cases r)
    case (Throw msg)
    with run show ?thesis
      by (intro thrown [of msg T]) (simp_all add: out trace_def)
  next
    case (Return photoUrls)
    show ?thesis
    proof (cases "fault e (Update ''vendors'' (body req ++ photoUrls) ''user_id'' (Some (JStr (params_user_id req))))")
      case None
      with run Return show ?thesis
        by (intro updated [of photoUrls T]) (simp_all add: out trace_def)
    next
      case (Some msg)
      with run Return show ?thesis
        by (intro rejected [of photoUrls T msg]) (simp_all add: out trace_def)
    qed
  qed
qed

text \<open>What the passbook block did: the value of \<^verbatim>\<open>photoUrl\<close> and the calls issued.\<close>

lemma put_bank_accounts_cases [case_names thrown rejected updated]:
  obtains (thrown) buf msg where
      "req_file req = Some buf"
      "fault e (Upload ''photos'' (params_user_id req @ ''/bank/passbook.jpg'') buf True ''image/jpeg'') = Some msg"
      "trace (put_bank_accounts e req) s =
         [Upload ''photos'' (params_user_id req @ ''/bank/passbook.jpg'') buf True ''image/jpeg'']"
      "fst (put_bank_accounts e req s) = json 500 (Error msg)"
      "tables (snd (put_bank_accounts e req s)) = tables s"
  | (rejected) photoUrl T msg where
      "req_file req = None \<and> photoUrl = None \<and> T = [] \<or>
       (\<exists>buf. req_file req = Some buf \<and>
          fault e (Upload ''photos'' (params_user_id req @ ''/bank/passbook.jpg'') buf True ''image/jpeg'') = None \<and>
          photoUrl = Some (publicUrl e ''photos'' (params_user_id req @ ''/bank/passbook.jpg'')) \<and>
          T = [Upload ''photos'' (params_user_id req @ ''/bank/passbook.jpg'') buf True ''image/jpeg'',
               GetPublicUrl ''photos'' (params_user_id req @ ''/bank/passbook.jpg'')])"
      "fault e (Update ''bank_accounts'' (body req ++ passbook_patch photoUrl) ''user_id''
                 (Some (JStr (params_user_id req)))) = Some msg"
      "trace (put_bank_accounts e req) s =
         T @ [Update ''bank_accounts'' (body req ++ passbook_patch photoUrl) ''user_id''
                (Some (JStr (params_user_id req)))]"
      "fst (put_bank_accounts e req s) = json 400 (Error msg)"
      "tables (snd (put_bank_accounts e req s)) = tables s"
  | (updated) photoUrl T where
      "req_file req = None \<and> photoUrl = None \<and> T = [] \<or>
       (\<exists>buf. req_file req = Some buf \<and>
          fault e (Upload ''photos'' (params_user_id req @ ''/bank/passbook.jpg'') buf True ''image/jpeg'') = None \<and>
          photoUrl = Some (publicUrl e ''photos'' (params_user_id req @ ''/bank/passbook.jpg'')) \<and>
          T = [Upload ''photos'' (params_user_id req @ ''/bank/passbook.jpg'') buf True ''image/jpeg'',
               GetPublicUrl ''photos'' (params_user_id req @ ''/bank/passbook.jpg'')])"
      "fault e (Update ''bank_accounts'' (body req ++ passbook_patch photoUrl) ''user_id''
                 (Some (JStr (params_user_id req)))) = None"
      "trace (put_bank_accounts e req) s =
         T @ [Update ''bank_accounts'' (body req ++ passbook_patch photoUrl) ''user_id''
                (Some (JStr (params_user_id req)))]"
      "fst (put_bank_accounts e req s) =
         json 200 (first_row (map (\<lambda>r. r ++ (body req ++ passbook_patch photoUrl))
           (filter (eq_filter ''user_id'' (Some (JStr (params_user_id req)))) (tables s ''bank_accounts''))))"
      "tables (snd (put_bank_accounts e req s)) =
         (tables s)(''bank_accounts'' :=
            map (apply_patch (body req ++ passbook_patch photoUrl) ''user_id'' (Some (JStr (params_user_id req))))
              (tables s ''bank_accounts''))"
proof -
  from put_bank_accounts_run [of req e] obtain r T where
    up: "req_file req = None \<and> r = Return None \<and> T = [] \<or>
      (\<exists>buf msg. req_file req = Some buf \<and>
         fault e (Upload ''photos'' (params_user_id req @ ''/bank/passbook.jpg'') buf True ''image/jpeg'') = Some msg \<and>
         r = Throw msg \<and> T = [Upload ''photos'' (params_user_id req @ ''/bank/passbook.jpg'') buf True ''image/jpeg'']) \<or>
      (\<exists>buf. req_file req = Some buf \<and>
         fault e (Upload ''photos'' (params_user_id req @ ''/bank/passbook.jpg'') buf True ''image/jpeg'') = None \<and>
         r = Return (Some (publicUrl e ''photos'' (params_user_id req @ ''/bank/passbook.jpg''))) \<and>
         T = [Upload ''photos'' (params_user_id req @ ''/bank/passbook.jpg'') buf True ''image/jpeg'',
              GetPublicUrl ''photos'' (params_user_id req @ ''/bank/passbook.jpg'')])"
    and out: "\<And>s. put_bank_accounts e req s =
       (case r of
          Throw msg \<Rightarrow> (json 500 (Error msg), effect T (upserts e T) s)
        | Return photoUrl \<Rightarrow>
           (case fault e (Update ''bank_accounts'' (body req ++ passbook_patch photoUrl) ''user_id''
                            (Some (JStr (params_user_id req)))) of
              Some msg \<Rightarrow>
                (json 400 (Error msg),
                 effect (T @ [Update ''bank_accounts'' (body req ++ passbook_patch photoUrl) ''user_id''
                                (Some (JStr (params_user_id req)))])
                   (upserts e T) s)
            | None \<Rightarrow>
                (json 200 (first_row (map (\<lambda>r. r ++ (body req ++ passbook_patch photoUrl))
                     (filter (eq_filter ''user_id'' (Some (JStr (params_user_id req)))) (tables s ''bank_accounts'')))),
                 (effect (T @ [Update ''bank_accounts'' (body req ++ passbook_patch photoUrl) ''user_id''
                                (Some (JStr (params_user_id req)))])
                   (upserts e T) s)
                 \<lparr>tables := (tables s)(''bank_accounts'' :=
                     map (apply_patch (body req ++ passbook_patch photoUrl) ''user_id'' (Some (JStr (params_user_id req))))
                       (tables s ''bank_accounts''))\<rparr>)))"
    by blast
  show thesis
  proof (cases r)
    case (Throw msg)
    with up obtain buf where "req_file req = Some buf"
      "fault e (Upload ''photos'' (params_user_id req @ ''/bank/passbook.jpg'') buf True ''image/jpeg'') = Some msg"
      "T = [Upload ''photos'' (params_user_id req @ ''/bank/passbook.jpg'') buf True ''image/jpeg'']"
      by auto
    with Throw show ?thesis
      by (intro thrown [of buf msg]) (simp_all add: out trace_def)
  next
    case (Return photoUrl)
    with up have up': "req_file req = None \<and> photoUrl = None \<and> T = [] \<or>
       (\<exists>buf. req_file req = Some buf \<and>
          fault e (Upload ''photos'' (params_user_id req @ ''/bank/passbook.jpg'') buf True ''image/jpeg'') = None \<and>
          photoUrl = Some (publicUrl e ''photos'' (params_user_id req @ ''/bank/passbook.jpg'')) \<and>
          T = [Upload ''photos'' (params_user_id req @ ''/bank/passbook.jpg'') buf True ''image/jpeg'',
               GetPublicUrl ''photos'' (params_user_id req @ ''/bank/passbook.jpg'')])"
      by auto
    show ?thesis
    proof (cases "fault e (Update ''bank_accounts'' (body req ++ passbook_patch photoUrl) ''user_id''
                 (Some (JStr (params_user_id req))))")
      case None
      with Return show ?thesis
        by (intro updated [of photoUrl T, OF up']) (simp_all add: out trace_def)
    next
      case (Some msg)
      with Return show ?thesis
        by (intro rejected [of photoUrl T msg, OF up']) (simp_all add: out trace_def)
    qed
  qed
qed

subsection \<open>Repeating an update\<close>

lemma put_vendors_uniform:
  "\<exists>T D g. (\<forall>t. g (g t) = g t) \<and>
     (\<forall>s. snd (put_vendors e req s) = (effect T D s)\<lparr>tables := g (tables s)\<rparr>)"
proof (cases "files req")
  case None
  have "\<forall>s. snd (put_vendors e req s) = (effect [] Map.empty s)\<lparr>tables := (\<lambda>t. t) (tables s)\<rparr>"
    by (simp add: put_vendors_undefined [OF None] effect_nothing)
  then show ?thesis by (intro exI [of _ "[]"] exI [of _ Map.empty] exI [of _ "\<lambda>t. t"]) simp
next
  case (Some fs)
  from put_vendors_run [OF Some, of e] obtain r T where
    run: "\<And>s. put_vendors e req s =
       (case r of
          Throw msg \<Rightarrow> (json 500 (Error msg), effect T (upserts e T) s)
        | Return photoUrls \<Rightarrow>
           (case fault e (Update ''vendors'' (body req ++ photoUrls) ''user_id'' (Some (JStr (params_user_id req)))) of
              Some msg \<Rightarrow>
                (json 400 (Error msg),
                 effect (T @ [Update ''vendors'' (body req ++ photoUrls) ''user_id'' (Some (JStr (params_user_id req)))])
                   (upserts e T) s)
            | None \<Rightarrow>
                (json 200 (first_row (map (\<lambda>r. r ++ (body req ++ photoUrls))
                     (filter (eq_filter ''user_id'' (Some (JStr (params_user_id req)))) (tables s ''vendors'')))),
                 (effect (T @ [Update ''vendors'' (body req ++ photoUrls) ''user_id'' (Some (JStr (params_user_id req)))])
                   (upserts e T) s)
                 \<lparr>tables := (tables s)(''vendors'' :=
                     map (apply_patch (body req ++ photoUrls) ''user_id'' (Some (JStr (params_user_id req))))
                       (tables s ''vendors''))\<rparr>)))"
    by blast
  show ?thesis
  proof (cases r)
    case (Throw msg)
    then have "\<forall>s. snd (put_vendors e req s) = (effect T (upserts e T) s)\<lparr>tables := (\<lambda>t. t) (tables s)\<rparr>"
      by (simp add: run effect_def)
    then show ?thesis by (intro exI [of _ T] exI [of _ "upserts e T"] exI [of _ "\<lambda>t. t"]) simp
  next
    case (Return photoUrls)
    let ?U = "Update ''vendors'' (body req ++ photoUrls) ''user_id'' (Some (JStr (params_user_id req)))"
    show ?thesis
    proof (cases "fault e ?U")
      case (Some msg)
      with Return have "\<forall>s. snd (put_vendors e req s) = (effect (T @ [?U]) (upserts e T) s)\<lparr>tables := (\<lambda>t. t) (tables s)\<rparr>"
        by (simp add: run effect_def)
      then show ?thesis by (intro exI [of _ "T @ [?U]"] exI [of _ "upserts e T"] exI [of _ "\<lambda>t. t"]) simp
    next
      case None
      let ?g = "\<lambda>t. t(''vendors'' := map (apply_patch (body req ++ photoUrls) ''user_id'' (Some (JStr (params_user_id req)))) (t ''vendors''))"
      from None Return have "\<forall>s. snd (put_vendors e req s) = (effect (T @ [?U]) (upserts e T) s)\<lparr>tables := ?g (tables s)\<rparr>"
        by (simp add: run)
      moreover have "\<forall>t. ?g (?g t) = ?g t"
        by (simp add: apply_patch_twice comp_def)
      ultimately show ?thesis
        by (intro exI [of _ "T @ [?U]"] exI [of _ "upserts e T"] exI [of _ ?g]) simp
    qed
  qed
qed

lemma put_bank_accounts_uniform:
  "\<exists>T D g. (\<forall>t. g (g t) = g t) \<and>
     (\<forall>s. snd (put_bank_accounts e req s) = (effect T D s)\<lparr>tables := g (tables s)\<rparr>)"
proof -
  from put_bank_accounts_run [of req e] obtain r T where
    run: "\<And>s. put_bank_accounts e req s =
       (case r of
          Throw msg \<Rightarrow> (json 500 (Error msg), effect T (upserts e T) s)
        | Return photoUrl \<Rightarrow>
           (case fault e (Update ''bank_accounts'' (body req ++ passbook_patch photoUrl) ''user_id''
                            (Some (JStr (params_user_id req)))) of
              Some msg \<Rightarrow>
                (json 400 (Error msg),
                 effect (T @ [Update ''bank_accounts'' (body req ++ passbook_patch photoUrl) ''user_id''
                                (Some (JStr (params_user_id req)))])
                   (upserts e T) s)
            | None \<Rightarrow>
                (json 200 (first_row (map (\<lambda>r. r ++ (body req ++ passbook_patch photoUrl))
                     (filter (eq_filter ''user_id'' (Some (JStr (params_user_id req)))) (tables s ''bank_accounts'')))),
                 (effect (T @ [Update ''bank_accounts'' (body req ++ passbook_patch photoUrl) ''user_id''
                                (Some (JStr (params_user_id req)))])
                   (upserts e T) s)
                 \<lparr>tables := (tables s)(''bank_accounts'' :=
                     map (apply_patch (body req ++ passbook_patch photoUrl) ''user_id'' (Some (JStr (params_user_id req))))
                       (tables s ''bank_accounts''))\<rparr>)))"
    by blast
  show ?thesis
  proof (cases r)
    case (Throw msg)
    then have "\<forall>s. snd (put_bank_accounts e req s) = (effect T (upserts e T) s)\<lparr>tables := (\<lambda>t. t) (tables s)\<rparr>"
      by (simp add: run effect_def)
    then show ?thesis by (intro exI [of _ T] exI [of _ "upserts e T"] exI [of _ "\<lambda>t. t"]) simp
  next
    case (Return photoUrl)
    let ?U = "Update ''bank_accounts'' (body req ++ passbook_patch photoUrl) ''user_id'' (Some (JStr (params_user_id req)))"
    show ?thesis
    proof (cases "fault e ?U")
      case (Some msg)
      with Return have "\<forall>s. snd (put_bank_accounts e req s) = (effect (T @ [?U]) (upserts e T) s)\<lparr>tables := (\<lambda>t. t) (tables s)\<rparr>"
        by (simp add: run effect_def)
      then show ?thesis by (intro exI [of _ "T @ [?U]"] exI [of _ "upserts e T"] exI [of _ "\<lambda>t. t"]) simp
    next
      case None
      let ?g = "\<lambda>t. t(''bank_accounts'' := map (apply_patch (body req ++ passbook_patch photoUrl) ''user_id'' (Some (JStr (params_user_id req)))) (t ''bank_accounts''))"
      from None Return have "\<forall>s. snd (put_bank_accounts e req s) = (effect (T @ [?U]) (upserts e T) s)\<lparr>tables := ?g (tables s)\<rparr>"
        by (simp add: run)
      moreover have "\<forall>t. ?g (?g t) = ?g t"
        by (simp add: apply_patch_twice comp_def)
      ultimately show ?thesis
        by (intro exI [of _ "T @ [?U]"] exI [of _ "upserts e T"] exI [of _ ?g]) simp
    qed
  qed
qed

lemma uniform_twice:
  assumes g: "\<forall>t. g (g t) = g t"
    and h: "\<forall>s. snd (h s) = (effect T D s)\<lparr>tables := g (tables s)\<rparr>"
  shows "tables (snd (h (snd (h s)))) = tables (snd (h s))"
    and "objects (snd (h (snd (h s)))) = objects (snd (h s))"
    and "trace h (snd (h s)) = trace h s"
  using g by (simp_all add: h trace_def map_add_twice)

section \<open>The attachment uploader\<close>

text \<open>
  Claim C7. The upload helper puts the bytes under the path
  \<^verbatim>\<open>{userId}/{folder}/{fileName}\<close> of bucket \<^verbatim>\<open>photos\<close> with \<^verbatim>\<open>upsert\<close> set and content type
  \<^verbatim>\<open>image/jpeg\<close>; when the store accepts the upload the object at that path is replaced and
  the public URL of the path is returned, and when it rejects the upload the error is
  thrown. Every upload that any of the four handlers issues goes through it with the
  folder \<^verbatim>\<open>vendor\<close> or \<^verbatim>\<open>bank\<close> and the fixed file name of its slot
  (\<^verbatim>\<open>personal.jpg\<close>, \<^verbatim>\<open>aadhar.jpg\<close>, \<^verbatim>\<open>cart.jpg\<close>, \<^verbatim>\<open>passbook.jpg\<close>), and carries the bytes of
  that slot's file.
\<close>

theorem upload_path_and_result:
  "(fault e (Upload ''photos'' (toString userId @ ''/'' @ folder @ ''/'' @ fileName) fileBuffer True ''image/jpeg'')
      = None \<longrightarrow>
      uploadToSupabase e fileBuffer fileName userId folder s =
        (Return (publicUrl e ''photos'' (toString userId @ ''/'' @ folder @ ''/'' @ fileName)),
         s\<lparr>calls := calls s @
               [Upload ''photos'' (toString userId @ ''/'' @ folder @ ''/'' @ fileName) fileBuffer True ''image/jpeg'',
                GetPublicUrl ''photos'' (toString userId @ ''/'' @ folder @ ''/'' @ fileName)],
           objects := (objects s)((''photos'', toString userId @ ''/'' @ folder @ ''/'' @ fileName) \<mapsto>
               \<lparr>content = fileBuffer, contentType = ''image/jpeg''\<rparr>)\<rparr>))
   \<and>
   (\<forall>msg. fault e (Upload ''photos'' (toString userId @ ''/'' @ folder @ ''/'' @ fileName) fileBuffer True ''image/jpeg'')
      = Some msg \<longrightarrow>
      uploadToSupabase e fileBuffer fileName userId folder s =
        (Throw msg,
         s\<lparr>calls := calls s @
               [Upload ''photos'' (toString userId @ ''/'' @ folder @ ''/'' @ fileName) fileBuffer True ''image/jpeg'']\<rparr>))
   \<and>
   (\<forall>bucket path bytes upsert ctype.
      Upload bucket path bytes upsert ctype \<in> set (trace (post_vendors e req) s) \<longrightarrow>
      bucket = ''photos'' \<and> upsert \<and> ctype = ''image/jpeg'' \<and>
      (\<exists>fs. files req = Some fs \<and>
         (path = toString (body req ''user_id'') @ ''/vendor/personal.jpg'' \<and> fs ''personal_photo'' = Some bytes \<or>
          path = toString (body req ''user_id'') @ ''/vendor/aadhar.jpg'' \<and> fs ''aadhar_photo'' = Some bytes \<or>
          path = toString (body req ''user_id'') @ ''/vendor/cart.jpg'' \<and> fs ''cart_photo'' = Some bytes)))
   \<and>
   (\<forall>bucket path bytes upsert ctype.
      Upload bucket path bytes upsert ctype \<in> set (trace (put_vendors e req) s) \<longrightarrow>
      bucket = ''photos'' \<and> upsert \<and> ctype = ''image/jpeg'' \<and>
      (\<exists>fs. files req = Some fs \<and>
         (path = params_user_id req @ ''/vendor/personal.jpg'' \<and> fs ''personal_photo'' = Some bytes \<or>
          path = params_user_id req @ ''/vendor/aadhar.jpg'' \<and> fs ''aadhar_photo'' = Some bytes \<or>
          path = params_user_id req @ ''/vendor/cart.jpg'' \<and> fs ''cart_photo'' = Some bytes)))
   \<and>
   (\<forall>bucket path bytes upsert ctype.
      Upload bucket path bytes upsert ctype \<in> set (trace (post_bank_accounts e req) s) \<longrightarrow>
      bucket = ''photos'' \<and> upsert \<and> ctype = ''image/jpeg'' \<and>
      path = toString (body req ''user_id'') @ ''/bank/passbook.jpg'' \<and> req_file req = Some bytes)
   \<and>
   (\<forall>bucket path bytes upsert ctype.
      Upload bucket path bytes upsert ctype \<in> set (trace (put_bank_accounts e req) s) \<longrightarrow>
      bucket = ''photos'' \<and> upsert \<and> ctype = ''image/jpeg'' \<and>
      path = params_user_id req @ ''/bank/passbook.jpg'' \<and> req_file req = Some bytes)"
proof -
  have returned: "fault e (Upload ''photos'' (toString userId @ ''/'' @ folder @ ''/'' @ fileName) fileBuffer True ''image/jpeg'')
      = None \<longrightarrow>
      uploadToSupabase e fileBuffer fileName userId folder s =
        (Return (publicUrl e ''photos'' (toString userId @ ''/'' @ folder @ ''/'' @ fileName)),
         s\<lparr>calls := calls s @
               [Upload ''photos'' (toString userId @ ''/'' @ folder @ ''/'' @ fileName) fileBuffer True ''image/jpeg'',
                GetPublicUrl ''photos'' (toString userId @ ''/'' @ folder @ ''/'' @ fileName)],
           objects := (objects s)((''photos'', toString userId @ ''/'' @ folder @ ''/'' @ fileName) \<mapsto>
               \<lparr>content = fileBuffer, contentType = ''image/jpeg''\<rparr>)\<rparr>)"
  proof
    assume "fault e (Upload ''photos'' (toString userId @ ''/'' @ folder @ ''/'' @ fileName) fileBuffer True ''image/jpeg'')
        = None"
    then show "uploadToSupabase e fileBuffer fileName userId folder s =
          (Return (publicUrl e ''photos'' (toString userId @ ''/'' @ folder @ ''/'' @ fileName)),
           s\<lparr>calls := calls s @
                 [Upload ''photos'' (toString userId @ ''/'' @ folder @ ''/'' @ fileName) fileBuffer True ''image/jpeg'',
                  GetPublicUrl ''photos'' (toString userId @ ''/'' @ folder @ ''/'' @ fileName)],
             objects := (objects s)((''photos'', toString userId @ ''/'' @ folder @ ''/'' @ fileName) \<mapsto>
                 \<lparr>content = fileBuffer, contentType = ''image/jpeg''\<rparr>)\<rparr>)"
      by (simp add: uploadToSupabase_def storage_upload_def storage_getPublicUrl_def issue_def Let_def)
  qed
  have thrown: "\<forall>msg. fault e (Upload ''photos'' (toString userId @ ''/'' @ folder @ ''/'' @ fileName) fileBuffer True ''image/jpeg'')
      = Some msg \<longrightarrow>
      uploadToSupabase e fileBuffer fileName userId folder s =
        (Throw msg,
         s\<lparr>calls := calls s @
               [Upload ''photos'' (toString userId @ ''/'' @ folder @ ''/'' @ fileName) fileBuffer True ''image/jpeg'']\<rparr>)"
  proof (intro allI impI)
    fix msg
    assume "fault e (Upload ''photos'' (toString userId @ ''/'' @ folder @ ''/'' @ fileName) fileBuffer True ''image/jpeg'')
        = Some msg"
    then show "uploadToSupabase e fileBuffer fileName userId folder s =
          (Throw msg,
           s\<lparr>calls := calls s @
                 [Upload ''photos'' (toString userId @ ''/'' @ folder @ ''/'' @ fileName) fileBuffer True ''image/jpeg'']\<rparr>)"
      by (simp add: uploadToSupabase_def storage_upload_def storage_getPublicUrl_def issue_def Let_def)
  qed
  have pv: "\<forall>bucket path bytes upsert ctype.
      Upload bucket path bytes upsert ctype \<in> set (trace (post_vendors e req) s) \<longrightarrow>
      bucket = ''photos'' \<and> upsert \<and> ctype = ''image/jpeg'' \<and>
      (\<exists>fs. files req = Some fs \<and>
         (path = toString (body req ''user_id'') @ ''/vendor/personal.jpg'' \<and> fs ''personal_photo'' = Some bytes \<or>
          path = toString (body req ''user_id'') @ ''/vendor/aadhar.jpg'' \<and> fs ''aadhar_photo'' = Some bytes \<or>
          path = toString (body req ''user_id'') @ ''/vendor/cart.jpg'' \<and> fs ''cart_photo'' = Some bytes))"
  proof (intro allI impI)
    fix bucket path bytes upsert ctype
    assume up: "Upload bucket path bytes upsert ctype \<in> set (trace (post_vendors e req) s)"
    have shape: "bucket = ''photos'' \<and> upsert \<and> ctype = ''image/jpeg'' \<and>
        (\<exists>fs'. files req = Some fs' \<and>
           (path = toString (body req ''user_id'') @ ''/vendor/personal.jpg'' \<and> fs' ''personal_photo'' = Some bytes \<or>
            path = toString (body req ''user_id'') @ ''/vendor/aadhar.jpg'' \<and> fs' ''aadhar_photo'' = Some bytes \<or>
            path = toString (body req ''user_id'') @ ''/vendor/cart.jpg'' \<and> fs' ''cart_photo'' = Some bytes))"
      if "files req = Some fs" "slots_run e fs (body req ''user_id'') ''vendor'' vendor_slots Map.empty r T"
        "Upload bucket path bytes upsert ctype \<in> set T" for fs r T
      using slots_run_calls [OF that(2,3)] that(1) by auto
    show "bucket = ''photos'' \<and> upsert \<and> ctype = ''image/jpeg'' \<and>
        (\<exists>fs. files req = Some fs \<and>
           (path = toString (body req ''user_id'') @ ''/vendor/personal.jpg'' \<and> fs ''personal_photo'' = Some bytes \<or>
            path = toString (body req ''user_id'') @ ''/vendor/aadhar.jpg'' \<and> fs ''aadhar_photo'' = Some bytes \<or>
            path = toString (body req ''user_id'') @ ''/vendor/cart.jpg'' \<and> fs ''cart_photo'' = Some bytes))"
    proof (cases rule: post_vendors_cases [of e req s])
      case (stopped msg)
      with up show ?thesis by simp
    next
      case undefined
      with up show ?thesis by simp
    next
      case (thrown fs msg T)
      with up have "Upload bucket path bytes upsert ctype \<in> set T" by simp
      from shape [OF thrown(1,2) this] show ?thesis .
    next
      case (rejected fs photoUrls T msg)
      with up have "Upload bucket path bytes upsert ctype \<in> set T" by simp
      from shape [OF rejected(1,2) this] show ?thesis .
    next
      case (inserted fs photoUrls T)
      with up have "Upload bucket path bytes upsert ctype \<in> set T" by simp
      from shape [OF inserted(1,2) this] show ?thesis .
    qed
  qed
  have uv: "\<forall>bucket path bytes upsert ctype.
      Upload bucket path bytes upsert ctype \<in> set (trace (put_vendors e req) s) \<longrightarrow>
      bucket = ''photos'' \<and> upsert \<and> ctype = ''image/jpeg'' \<and>
      (\<exists>fs. files req = Some fs \<and>
         (path = params_user_id req @ ''/vendor/personal.jpg'' \<and> fs ''personal_photo'' = Some bytes \<or>
          path = params_user_id req @ ''/vendor/aadhar.jpg'' \<and> fs ''aadhar_photo'' = Some bytes \<or>
          path = params_user_id req @ ''/vendor/cart.jpg'' \<and> fs ''cart_photo'' = Some bytes))"
  proof (intro allI impI)
    fix bucket path bytes upsert ctype
    assume up: "Upload bucket path bytes upsert ctype \<in> set (trace (put_vendors e req) s)"
    have shape: "bucket = ''photos'' \<and> upsert \<and> ctype = ''image/jpeg'' \<and>
        (\<exists>fs'. files req = Some fs' \<and>
           (path = params_user_id req @ ''/vendor/personal.jpg'' \<and> fs' ''personal_photo'' = Some bytes \<or>
            path = params_user_id req @ ''/vendor/aadhar.jpg'' \<and> fs' ''aadhar_photo'' = Some bytes \<or>
            path = params_user_id req @ ''/vendor/cart.jpg'' \<and> fs' ''cart_photo'' = Some bytes))"
      if "files req = Some fs"
        "slots_run e fs (Some (JStr (params_user_id req))) ''vendor'' vendor_slots Map.empty r T"
        "Upload bucket path bytes upsert ctype \<in> set T" for fs r T
      using slots_run_calls [OF that(2,3)] that(1) by auto
    show "bucket = ''photos'' \<and> upsert \<and> ctype = ''image/jpeg'' \<and>
        (\<exists>fs. files req = Some fs \<and>
           (path = params_user_id req @ ''/vendor/personal.jpg'' \<and> fs ''personal_photo'' = Some bytes \<or>
            path = params_user_id req @ ''/vendor/aadhar.jpg'' \<and> fs ''aadhar_photo'' = Some bytes \<or>
            path = params_user_id req @ ''/vendor/cart.jpg'' \<and> fs ''cart_photo'' = Some bytes))"
    proof (cases "files req")
      case None
      with up show ?thesis by (simp add: put_vendors_undefined trace_def)
    next
      case (Some fs)
      then show ?thesis
      proof (cases rule: put_vendors_cases [of req fs e s])
        case (thrown msg T)
        with up have "Upload bucket path bytes upsert ctype \<in> set T" by simp
        from shape [OF Some thrown(1) this] show ?thesis .
      next
        case (rejected photoUrls T msg)
        with up have "Upload bucket path bytes upsert ctype \<in> set T" by simp
        from shape [OF Some rejected(1) this] show ?thesis .
      next
        case (updated photoUrls T)
        with up have "Upload bucket path bytes upsert ctype \<in> set T" by simp
        from shape [OF Some updated(1) this] show ?thesis .
      qed
    qed
  qed
  have pb: "\<forall>bucket path bytes upsert ctype.
      Upload bucket path bytes upsert ctype \<in> set (trace (post_bank_accounts e req) s) \<longrightarrow>
      bucket = ''photos'' \<and> upsert \<and> ctype = ''image/jpeg'' \<and>
      path = toString (body req ''user_id'') @ ''/bank/passbook.jpg'' \<and> req_file req = Some bytes"
  proof (intro allI impI)
    fix bucket path bytes upsert ctype
    assume up: "Upload bucket path bytes upsert ctype \<in> set (trace (post_bank_accounts e req) s)"
    show "bucket = ''photos'' \<and> upsert \<and> ctype = ''image/jpeg'' \<and>
        path = toString (body req ''user_id'') @ ''/bank/passbook.jpg'' \<and> req_file req = Some bytes"
      using up by (cases rule: post_bank_accounts_cases [of e req s]) auto
  qed
  have ub: "\<forall>bucket path bytes upsert ctype.
      Upload bucket path bytes upsert ctype \<in> set (trace (put_bank_accounts e req) s) \<longrightarrow>
      bucket = ''photos'' \<and> upsert \<and> ctype = ''image/jpeg'' \<and>
      path = params_user_id req @ ''/bank/passbook.jpg'' \<and> req_file req = Some bytes"
  proof (intro allI impI)
    fix bucket path bytes upsert ctype
    assume up: "Upload bucket path bytes upsert ctype \<in> set (trace (put_bank_accounts e req) s)"
    show "bucket = ''photos'' \<and> upsert \<and> ctype = ''image/jpeg'' \<and>
        path = params_user_id req @ ''/bank/passbook.jpg'' \<and> req_file req = Some bytes"
      using up by (cases rule: put_bank_accounts_cases [of req e s]) auto
  qed
  from returned thrown pv uv pb ub show ?thesis
    by (intro conjI)
qed

theorem upload_path_and_result_witness:
  "fault no_faults (Upload ''photos'' ''u1/vendor/cart.jpg'' ''CART'' True ''image/jpeg'') = None \<and>
   uploadToSupabase no_faults ''CART'' ''cart.jpg'' (Some (JStr ''u1'')) ''vendor'' store0 =
     (Return ''https://cdn.test/photos/u1/vendor/cart.jpg'',
      store0\<lparr>calls := calls store0 @
                 [Upload ''photos'' ''u1/vendor/cart.jpg'' ''CART'' True ''image/jpeg'',
                  GetPublicUrl ''photos'' ''u1/vendor/cart.jpg''],
             objects := (objects store0)((''photos'', ''u1/vendor/cart.jpg'') \<mapsto>
                 \<lparr>content = ''CART'', contentType = ''image/jpeg''\<rparr>)\<rparr>) \<and>
   fault storage_down (Upload ''photos'' ''u1/vendor/cart.jpg'' ''CART'' True ''image/jpeg'') =
     Some ''storage unavailable'' \<and>
   uploadToSupabase storage_down ''CART'' ''cart.jpg'' (Some (JStr ''u1'')) ''vendor'' store0 =
     (Throw ''storage unavailable'',
      store0\<lparr>calls := calls store0 @ [Upload ''photos'' ''u1/vendor/cart.jpg'' ''CART'' True ''image/jpeg'']\<rparr>) \<and>
   filter is_upload (trace (post_vendors no_faults create_u3) store0) =
     [Upload ''photos'' ''u3/vendor/personal.jpg'' ''PERSONAL'' True ''image/jpeg'',
      Upload ''photos'' ''u3/vendor/aadhar.jpg'' ''AADHAR'' True ''image/jpeg''] \<and>
   filter is_upload (trace (put_vendors no_faults update_u1_files) store2) =
     [Upload ''photos'' ''u1/vendor/cart.jpg'' ''CART'' True ''image/jpeg''] \<and>
   filter is_upload (trace (post_bank_accounts no_faults create_u3) store0) =
     [Upload ''photos'' ''u3/bank/passbook.jpg'' ''PASSBOOK'' True ''image/jpeg''] \<and>
   filter is_upload (trace (put_bank_accounts no_faults update_u1_files) store2) =
     [Upload ''photos'' ''u1/bank/passbook.jpg'' ''PASSBOOK'' True ''image/jpeg'']"
proof -
  have f: "fault no_faults (Upload ''photos'' ''u1/vendor/cart.jpg'' ''CART'' True ''image/jpeg'') = None"
    "fault storage_down (Upload ''photos'' ''u1/vendor/cart.jpg'' ''CART'' True ''image/jpeg'') =
       Some ''storage unavailable''"
    "publicUrl no_faults ''photos'' ''u1/vendor/cart.jpg'' = ''https://cdn.test/photos/u1/vendor/cart.jpg''"
    by (simp_all add: no_faults_def storage_down_def)
  have pv: "filter is_upload (trace (post_vendors no_faults create_u3) store0) =
     [Upload ''photos'' ''u3/vendor/personal.jpg'' ''PERSONAL'' True ''image/jpeg'',
      Upload ''photos'' ''u3/vendor/aadhar.jpg'' ''AADHAR'' True ''image/jpeg'']"
    by (simp add: create_u3_def store0_def no_faults_def post_vendors_def try_catch_def await_def resolve_def return_def
        db_maybeSingle_def db_insert_def upload_vendor_photos_def upload_if_present_def uploadToSupabase_def
        storage_upload_def storage_getPublicUrl_def issue_def Let_def trace_def)
  have uv: "filter is_upload (trace (put_vendors no_faults update_u1_files) store2) =
     [Upload ''photos'' ''u1/vendor/cart.jpg'' ''CART'' True ''image/jpeg'']"
    by (simp add: update_u1_files_def store2_def no_faults_def put_vendors_def try_catch_def await_def resolve_def return_def
        db_update_def upload_vendor_photos_def upload_if_present_def uploadToSupabase_def
        storage_upload_def storage_getPublicUrl_def issue_def Let_def trace_def)
  have pb: "filter is_upload (trace (post_bank_accounts no_faults create_u3) store0) =
     [Upload ''photos'' ''u3/bank/passbook.jpg'' ''PASSBOOK'' True ''image/jpeg'']"
    by (simp add: create_u3_def store0_def no_faults_def post_bank_accounts_def try_catch_def await_def resolve_def return_def
        db_maybeSingle_def db_insert_def upload_passbook_photo_def uploadToSupabase_def
        storage_upload_def storage_getPublicUrl_def issue_def Let_def trace_def)
  have ub: "filter is_upload (trace (put_bank_accounts no_faults update_u1_files) store2) =
     [Upload ''photos'' ''u1/bank/passbook.jpg'' ''PASSBOOK'' True ''image/jpeg'']"
    by (simp add: update_u1_files_def store2_def no_faults_def put_bank_accounts_def try_catch_def await_def resolve_def return_def
        db_update_def upload_passbook_photo_def uploadToSupabase_def
        storage_upload_def storage_getPublicUrl_def issue_def Let_def trace_def)
  show ?thesis
    using upload_path_and_result
        [where e = no_faults and userId = "Some (JStr ''u1'')" and folder = "''vendor''" and fileName = "''cart.jpg''"
           and fileBuffer = "''CART''" and s = store0 and req = create_u3]
      upload_path_and_result
        [where e = storage_down and userId = "Some (JStr ''u1'')" and folder = "''vendor''" and fileName = "''cart.jpg''"
           and fileBuffer = "''CART''" and s = store0 and req = create_u3]
      f
    by (simp add: pv uv pb ub)
qed

section \<open>Create\<close>






text \<open>
  Claim C2. A create request, for a vendor or for a bank account, in which the upload of
  an attachment slot fails (an upload the handler issued was rejected, so the uploader
  threw): the handler answers HTTP 500, insert is never called, the rows are unchanged, and
  every upload of the request that the object store accepted, that is, every slot uploaded
  before the failing one, is still stored under its path.
\<close>

theorem upload_failure_aborts_create:
  "((\<exists>c \<in> set (trace (post_vendors e req) s). is_upload c \<and> fault e c \<noteq> None) \<longrightarrow>
      status (fst (post_vendors e req s)) = 500 \<and>
      filter is_insert (trace (post_vendors e req) s) = [] \<and>
      tables (snd (post_vendors e req s)) = tables s \<and>
      (\<forall>bucket path bytes upsert ctype.
         Upload bucket path bytes upsert ctype \<in> set (trace (post_vendors e req) s) \<and>
         fault e (Upload bucket path bytes upsert ctype) = None \<longrightarrow>
         objects (snd (post_vendors e req s)) (bucket, path) = Some \<lparr>content = bytes, contentType = ctype\<rparr>))
   \<and>
   ((\<exists>c \<in> set (trace (post_bank_accounts e req) s). is_upload c \<and> fault e c \<noteq> None) \<longrightarrow>
      status (fst (post_bank_accounts e req s)) = 500 \<and>
      filter is_insert (trace (post_bank_accounts e req) s) = [] \<and>
      tables (snd (post_bank_accounts e req s)) = tables s \<and>
      (\<forall>bucket path bytes upsert ctype.
         Upload bucket path bytes upsert ctype \<in> set (trace (post_bank_accounts e req) s) \<and>
         fault e (Upload bucket path bytes upsert ctype) = None \<longrightarrow>
         objects (snd (post_bank_accounts e req s)) (bucket, path) = Some \<lparr>content = bytes, contentType = ctype\<rparr>))"
proof (rule conjI; rule impI)
  assume "\<exists>c \<in> set (trace (post_vendors e req) s). is_upload c \<and> fault e c \<noteq> None"
  then obtain c where c: "c \<in> set (trace (post_vendors e req) s)" "is_upload c" "fault e c \<noteq> None"
    by blast
  show "status (fst (post_vendors e req s)) = 500 \<and>
      filter is_insert (trace (post_vendors e req) s) = [] \<and>
      tables (snd (post_vendors e req s)) = tables s \<and>
      (\<forall>bucket path bytes upsert ctype.
         Upload bucket path bytes upsert ctype \<in> set (trace (post_vendors e req) s) \<and>
         fault e (Upload bucket path bytes upsert ctype) = None \<longrightarrow>
         objects (snd (post_vendors e req s)) (bucket, path) = Some \<lparr>content = bytes, contentType = ctype\<rparr>)"
  proof (cases rule: post_vendors_cases [of e req s])
    case (stopped msg)
    with c show ?thesis by auto
  next
    case undefined
    with c show ?thesis by auto
  next
    case (thrown fs msg T)
    have "objects (snd (post_vendors e req s)) (bucket, path) = Some \<lparr>content = bytes, contentType = ctype\<rparr>"
      if "Upload bucket path bytes upsert ctype \<in> set (trace (post_vendors e req) s)"
        and "fault e (Upload bucket path bytes upsert ctype) = None"
      for bucket path bytes upsert ctype
    proof -
      from that(1) thrown(3) have "Upload bucket path bytes upsert ctype \<in> set T" by simp
      from slots_run_stored [OF thrown(2) vendor_slots_distinct this that(2)] thrown(6)
      show ?thesis by simp
    qed
    with thrown show ?thesis
      by (auto simp: json_def slots_run_filters)
  next
    case (rejected fs photoUrls T msg)
    from c rejected(4) have "c \<in> set T" by auto
    from slots_run_Return [OF rejected(2) refl this c(2)] c(3) show ?thesis by simp
  next
    case (inserted fs photoUrls T)
    from c inserted(4) have "c \<in> set T" by auto
    from slots_run_Return [OF inserted(2) refl this c(2)] c(3) show ?thesis by simp
  qed
next
  assume "\<exists>c \<in> set (trace (post_bank_accounts e req) s). is_upload c \<and> fault e c \<noteq> None"
  then obtain c where c: "c \<in> set (trace (post_bank_accounts e req) s)" "is_upload c" "fault e c \<noteq> None"
    by blast
  show "status (fst (post_bank_accounts e req s)) = 500 \<and>
      filter is_insert (trace (post_bank_accounts e req) s) = [] \<and>
      tables (snd (post_bank_accounts e req s)) = tables s \<and>
      (\<forall>bucket path bytes upsert ctype.
         Upload bucket path bytes upsert ctype \<in> set (trace (post_bank_accounts e req) s) \<and>
         fault e (Upload bucket path bytes upsert ctype) = None \<longrightarrow>
         objects (snd (post_bank_accounts e req s)) (bucket, path) = Some \<lparr>content = bytes, contentType = ctype\<rparr>)"
  proof (cases rule: post_bank_accounts_cases [of e req s])
    case (stopped msg)
    with c show ?thesis by auto
  next
    case (thrown buf msg)
    then show ?thesis by (auto simp: json_def)
  next
    case (rejected photoUrl T msg)
    with c show ?thesis by auto
  next
    case (inserted photoUrl T)
    with c show ?thesis by auto
  qed
qed

theorem upload_failure_aborts_create_witness:
  "trace (post_vendors aadhar_rejected create_u3) store0 =
     [SelectMaybeSingle ''vendors'' ''user_id'' ''phone'' (Some (JStr ''9999999999'')),
      Upload ''photos'' ''u3/vendor/personal.jpg'' ''PERSONAL'' True ''image/jpeg'',
      GetPublicUrl ''photos'' ''u3/vendor/personal.jpg'',
      Upload ''photos'' ''u3/vendor/aadhar.jpg'' ''AADHAR'' True ''image/jpeg''] \<and>
   fault aadhar_rejected (Upload ''photos'' ''u3/vendor/personal.jpg'' ''PERSONAL'' True ''image/jpeg'') = None \<and>
   fault aadhar_rejected (Upload ''photos'' ''u3/vendor/aadhar.jpg'' ''AADHAR'' True ''image/jpeg'') \<noteq> None \<and>
   status (fst (post_vendors aadhar_rejected create_u3 store0)) = 500 \<and>
   filter is_insert (trace (post_vendors aadhar_rejected create_u3) store0) = [] \<and>
   tables (snd (post_vendors aadhar_rejected create_u3 store0)) = tables store0 \<and>
   objects (snd (post_vendors aadhar_rejected create_u3 store0)) (''photos'', ''u3/vendor/personal.jpg'') =
     Some \<lparr>content = ''PERSONAL'', contentType = ''image/jpeg''\<rparr> \<and>
   trace (post_bank_accounts storage_down create_u3) store0 =
     [SelectMaybeSingle ''bank_accounts'' ''user_id'' ''account_number'' (Some (JStr ''ACC1'')),
      Upload ''photos'' ''u3/bank/passbook.jpg'' ''PASSBOOK'' True ''image/jpeg''] \<and>
   fault storage_down (Upload ''photos'' ''u3/bank/passbook.jpg'' ''PASSBOOK'' True ''image/jpeg'') \<noteq> None \<and>
   status (fst (post_bank_accounts storage_down create_u3 store0)) = 500 \<and>
   filter is_insert (trace (post_bank_accounts storage_down create_u3) store0) = [] \<and>
   tables (snd (post_bank_accounts storage_down create_u3 store0)) = tables store0"
proof -
  have tv: "trace (post_vendors aadhar_rejected create_u3) store0 =
     [SelectMaybeSingle ''vendors'' ''user_id'' ''phone'' (Some (JStr ''9999999999'')),
      Upload ''photos'' ''u3/vendor/personal.jpg'' ''PERSONAL'' True ''image/jpeg'',
      GetPublicUrl ''photos'' ''u3/vendor/personal.jpg'',
      Upload ''photos'' ''u3/vendor/aadhar.jpg'' ''AADHAR'' True ''image/jpeg'']"
    by (simp add: create_u3_def store0_def aadhar_rejected_def post_vendors_def try_catch_def await_def resolve_def return_def
        db_maybeSingle_def upload_vendor_photos_def upload_if_present_def uploadToSupabase_def storage_upload_def
        storage_getPublicUrl_def issue_def Let_def trace_def)
  have tb: "trace (post_bank_accounts storage_down create_u3) store0 =
     [SelectMaybeSingle ''bank_accounts'' ''user_id'' ''account_number'' (Some (JStr ''ACC1'')),
      Upload ''photos'' ''u3/bank/passbook.jpg'' ''PASSBOOK'' True ''image/jpeg'']"
    by (simp add: create_u3_def store0_def storage_down_def post_bank_accounts_def try_catch_def await_def resolve_def return_def
        db_maybeSingle_def upload_passbook_photo_def uploadToSupabase_def storage_upload_def
        storage_getPublicUrl_def issue_def Let_def trace_def)
  have fv: "fault aadhar_rejected (Upload ''photos'' ''u3/vendor/personal.jpg'' ''PERSONAL'' True ''image/jpeg'') = None"
    "fault aadhar_rejected (Upload ''photos'' ''u3/vendor/aadhar.jpg'' ''AADHAR'' True ''image/jpeg'') \<noteq> None"
    by (simp_all add: aadhar_rejected_def)
  have fb: "fault storage_down (Upload ''photos'' ''u3/bank/passbook.jpg'' ''PASSBOOK'' True ''image/jpeg'') \<noteq> None"
    by (simp add: storage_down_def)
  show ?thesis
    using upload_failure_aborts_create [of aadhar_rejected create_u3 store0]
      upload_failure_aborts_create [of storage_down create_u3 store0] fv fb
    by (simp add: tv tb)
qed

text \<open>
  Claim C4. A create request that succeeds and that brought a file for an attachment slot:
  the file was uploaded under the slot's path, and the value of the slot in the row sent to
  insert, returned and persisted is the public URL of that path, whatever the request body
  says for the slot (the uploaded URLs are merged on top of the body). For the three vendor
  slots and for the passbook slot of a bank account.
\<close>

theorem uploaded_url_wins:
  "(status (fst (post_vendors e req s)) = 200 \<and> files req = Some fs \<and> fs slot = Some buf \<and>
    (slot, fileName) \<in> {(''personal_photo'', ''personal.jpg''), (''aadhar_photo'', ''aadhar.jpg''),
                          (''cart_photo'', ''cart.jpg'')} \<longrightarrow>
      Upload ''photos'' (toString (body req ''user_id'') @ ''/vendor/'' @ fileName) buf True ''image/jpeg''
        \<in> set (trace (post_vendors e req) s) \<and>
      sent slot (trace (post_vendors e req) s) =
        [Some (JStr (publicUrl e ''photos'' (toString (body req ''user_id'') @ ''/vendor/'' @ fileName)))] \<and>
      (\<exists>row.
         row slot = Some (JStr (publicUrl e ''photos'' (toString (body req ''user_id'') @ ''/vendor/'' @ fileName))) \<and>
         payload (fst (post_vendors e req s)) = Row row \<and>
         tables (snd (post_vendors e req s)) ''vendors'' = tables s ''vendors'' @ [row]))
   \<and>
   (status (fst (post_bank_accounts e req s)) = 200 \<and> req_file req = Some buf \<longrightarrow>
      Upload ''photos'' (toString (body req ''user_id'') @ ''/bank/passbook.jpg'') buf True ''image/jpeg''
        \<in> set (trace (post_bank_accounts e req) s) \<and>
      sent ''passbook_photo'' (trace (post_bank_accounts e req) s) =
        [Some (JStr (publicUrl e ''photos'' (toString (body req ''user_id'') @ ''/bank/passbook.jpg'')))] \<and>
      (\<exists>row.
         row ''passbook_photo'' =
           Some (JStr (publicUrl e ''photos'' (toString (body req ''user_id'') @ ''/bank/passbook.jpg''))) \<and>
         payload (fst (post_bank_accounts e req s)) = Row row \<and>
         tables (snd (post_bank_accounts e req s)) ''bank_accounts'' = tables s ''bank_accounts'' @ [row]))"
proof (rule conjI; rule impI; elim conjE)
  assume ok: "status (fst (post_vendors e req s)) = 200" and fs: "files req = Some fs"
    and present: "fs slot = Some buf"
    and slot: "(slot, fileName) \<in> {(''personal_photo'', ''personal.jpg''), (''aadhar_photo'', ''aadhar.jpg''),
                          (''cart_photo'', ''cart.jpg'')}"
  show "Upload ''photos'' (toString (body req ''user_id'') @ ''/vendor/'' @ fileName) buf True ''image/jpeg''
        \<in> set (trace (post_vendors e req) s) \<and>
      sent slot (trace (post_vendors e req) s) =
        [Some (JStr (publicUrl e ''photos'' (toString (body req ''user_id'') @ ''/vendor/'' @ fileName)))] \<and>
      (\<exists>row.
         row slot = Some (JStr (publicUrl e ''photos'' (toString (body req ''user_id'') @ ''/vendor/'' @ fileName))) \<and>
         payload (fst (post_vendors e req s)) = Row row \<and>
         tables (snd (post_vendors e req s)) ''vendors'' = tables s ''vendors'' @ [row])"
  proof (cases rule: post_vendors_cases [of e req s])
    case (stopped msg)
    with ok show ?thesis by (simp add: json_def)
  next
    case undefined
    with ok show ?thesis by (simp add: json_def)
  next
    case (thrown fs' msg T)
    with ok show ?thesis by (simp add: json_def)
  next
    case (rejected fs' photoUrls T msg)
    with ok show ?thesis by (simp add: json_def)
  next
    case (inserted fs' photoUrls T)
    with fs have run: "slots_run e fs (body req ''user_id'') ''vendor'' vendor_slots Map.empty (Return photoUrls) T"
      by simp
    from slot have "slot \<in> fst ` set vendor_slots" by auto
    from slots_run_url [OF run refl this present] obtain fn where
      fn: "(slot, fn) \<in> set vendor_slots"
        "photoUrls slot = Some (JStr (publicUrl e ''photos'' (slot_path (body req ''user_id'') ''vendor'' fn)))"
        "Upload ''photos'' (slot_path (body req ''user_id'') ''vendor'' fn) buf True ''image/jpeg'' \<in> set T"
      by blast
    from fn(1) slot have "fn = fileName" by auto
    with fn have
      url: "photoUrls slot = Some (JStr (publicUrl e ''photos'' (toString (body req ''user_id'') @ ''/vendor/'' @ fileName)))"
      and up: "Upload ''photos'' (toString (body req ''user_id'') @ ''/vendor/'' @ fileName) buf True ''image/jpeg'' \<in> set T"
      by simp_all
    from url have row: "(body req ++ photoUrls) slot =
        Some (JStr (publicUrl e ''photos'' (toString (body req ''user_id'') @ ''/vendor/'' @ fileName)))"
      by (simp add: map_add_def)
    have "\<exists>row.
         row slot = Some (JStr (publicUrl e ''photos'' (toString (body req ''user_id'') @ ''/vendor/'' @ fileName))) \<and>
         payload (fst (post_vendors e req s)) = Row row \<and>
         tables (snd (post_vendors e req s)) ''vendors'' = tables s ''vendors'' @ [row]"
      using row inserted(5,6) by (intro exI [of _ "body req ++ photoUrls"]) (simp add: json_def)
    moreover have "sent slot (trace (post_vendors e req) s) =
        [Some (JStr (publicUrl e ''photos'' (toString (body req ''user_id'') @ ''/vendor/'' @ fileName)))]"
      using row inserted(4) slots_run_filters(4) [OF run, of slot]
      by (simp add: sent_def column_values_def)
    moreover have "Upload ''photos'' (toString (body req ''user_id'') @ ''/vendor/'' @ fileName) buf True ''image/jpeg''
        \<in> set (trace (post_vendors e req) s)"
      using up inserted(4) by simp
    ultimately show ?thesis by blast
  qed
next
  assume ok: "status (fst (post_bank_accounts e req s)) = 200" and f: "req_file req = Some buf"
  show "Upload ''photos'' (toString (body req ''user_id'') @ ''/bank/passbook.jpg'') buf True ''image/jpeg''
        \<in> set (trace (post_bank_accounts e req) s) \<and>
      sent ''passbook_photo'' (trace (post_bank_accounts e req) s) =
        [Some (JStr (publicUrl e ''photos'' (toString (body req ''user_id'') @ ''/bank/passbook.jpg'')))] \<and>
      (\<exists>row.
         row ''passbook_photo'' =
           Some (JStr (publicUrl e ''photos'' (toString (body req ''user_id'') @ ''/bank/passbook.jpg''))) \<and>
         payload (fst (post_bank_accounts e req s)) = Row row \<and>
         tables (snd (post_bank_accounts e req s)) ''bank_accounts'' = tables s ''bank_accounts'' @ [row])"
  proof (cases rule: post_bank_accounts_cases [of e req s])
    case (stopped msg)
    with ok show ?thesis by (simp add: json_def)
  next
    case (thrown buf' msg)
    with ok show ?thesis by (simp add: json_def)
  next
    case (rejected photoUrl T msg)
    with ok show ?thesis by (simp add: json_def)
  next
    case (inserted photoUrl T)
    with f have "photoUrl = Some (publicUrl e ''photos'' (toString (body req ''user_id'') @ ''/bank/passbook.jpg''))"
      "T = [Upload ''photos'' (toString (body req ''user_id'') @ ''/bank/passbook.jpg'') buf True ''image/jpeg'',
            GetPublicUrl ''photos'' (toString (body req ''user_id'') @ ''/bank/passbook.jpg'')]"
      by auto
    with inserted(3-5) show ?thesis
      by (simp add: json_def sent_def column_values_def)
  qed
qed

theorem uploaded_url_wins_witness:
  "status (fst (post_vendors no_faults create_u3 store0)) = 200 \<and>
   files create_u3 = Some [''personal_photo'' \<mapsto> ''PERSONAL'', ''aadhar_photo'' \<mapsto> ''AADHAR''] \<and>
   body create_u3 ''personal_photo'' = Some (JStr ''typed-by-hand'') \<and>
   sent ''personal_photo'' (trace (post_vendors no_faults create_u3) store0) =
     [Some (JStr ''https://cdn.test/photos/u3/vendor/personal.jpg'')] \<and>
   column_values ''personal_photo'' (tables (snd (post_vendors no_faults create_u3 store0)) ''vendors'') =
     [Some (JStr ''https://cdn.test/photos/u3/vendor/personal.jpg'')] \<and>
   status (fst (post_bank_accounts no_faults create_u3 store0)) = 200 \<and>
   req_file create_u3 = Some ''PASSBOOK'' \<and>
   body create_u3 ''passbook_photo'' = Some (JStr ''typed-by-hand'') \<and>
   sent ''passbook_photo'' (trace (post_bank_accounts no_faults create_u3) store0) =
     [Some (JStr ''https://cdn.test/photos/u3/bank/passbook.jpg'')] \<and>
   column_values ''passbook_photo'' (tables (snd (post_bank_accounts no_faults create_u3 store0)) ''bank_accounts'') =
     [Some (JStr ''https://cdn.test/photos/u3/bank/passbook.jpg'')]"
proof -
  have sv: "status (fst (post_vendors no_faults create_u3 store0)) = 200"
    by (simp add: create_u3_def store0_def no_faults_def post_vendors_def try_catch_def await_def resolve_def return_def
        db_maybeSingle_def db_insert_def upload_vendor_photos_def upload_if_present_def uploadToSupabase_def
        storage_upload_def storage_getPublicUrl_def issue_def Let_def json_def)
  have sb: "status (fst (post_bank_accounts no_faults create_u3 store0)) = 200"
    by (simp add: create_u3_def store0_def no_faults_def post_bank_accounts_def try_catch_def await_def resolve_def return_def
        db_maybeSingle_def db_insert_def upload_passbook_photo_def uploadToSupabase_def
        storage_upload_def storage_getPublicUrl_def issue_def Let_def json_def)
  have f: "files create_u3 = Some [''personal_photo'' \<mapsto> ''PERSONAL'', ''aadhar_photo'' \<mapsto> ''AADHAR'']"
    "req_file create_u3 = Some ''PASSBOOK''"
    "body create_u3 ''personal_photo'' = Some (JStr ''typed-by-hand'')"
    "body create_u3 ''passbook_photo'' = Some (JStr ''typed-by-hand'')"
    "body create_u3 ''user_id'' = Some (JStr ''u3'')"
    by (simp_all add: create_u3_def)
  have u: "publicUrl no_faults ''photos'' p = ''https://cdn.test/photos/'' @ p" for p
    by (simp add: no_faults_def)
  have t: "tables store0 table = []" for table
    by (simp add: store0_def)
  show ?thesis
    using uploaded_url_wins
      [of no_faults create_u3 store0 "[''personal_photo'' \<mapsto> ''PERSONAL'', ''aadhar_photo'' \<mapsto> ''AADHAR'']"
          "''personal_photo''" "''PERSONAL''" "''personal.jpg''"]
      uploaded_url_wins
      [of no_faults create_u3 store0 "[''personal_photo'' \<mapsto> ''PERSONAL'', ''aadhar_photo'' \<mapsto> ''AADHAR'']"
          "''personal_photo''" "''PASSBOOK''" "''personal.jpg''"] sv sb f
    by (auto simp: u t column_values_def)
qed

text \<open>
  Claim C5 contrasts the bank account create with the vendor create, "which omits absent
  slots from the merged row entirely". The merged row is \<^verbatim>\<open>{...req.body, ...photoUrls}\<close>: a
  vendor create with no file for \<^verbatim>\<open>cart_photo\<close> and a hand-typed \<^verbatim>\<open>cart_photo\<close> in the body
  sends and persists the typed value.
\<close>

theorem vendor_create_typed_slot_counterexample:
  "files create_u5 = Some Map.empty \<and>
   status (fst (post_vendors no_faults create_u5 store0)) = 200 \<and>
   sent ''cart_photo'' (trace (post_vendors no_faults create_u5) store0) = [Some (JStr ''typed-by-hand'')] \<and>
   column_values ''cart_photo'' (tables (snd (post_vendors no_faults create_u5 store0)) ''vendors'') =
     [Some (JStr ''typed-by-hand'')]"
  by (simp add: create_u5_def store0_def no_faults_def post_vendors_def try_catch_def await_def resolve_def return_def
      db_maybeSingle_def db_insert_def upload_vendor_photos_def upload_if_present_def issue_def Let_def json_def
      trace_def sent_def column_values_def)

text \<open>
  Claim C5, amended. A bank account create with no passbook file: whenever a row is sent to
  insert, its \<^verbatim>\<open>passbook_photo\<close> is \<^verbatim>\<open>null\<close>, whatever the body says for that field, and on
  success that row is returned and persisted. The vendor create differs: for a slot with
  no file it adds no entry and no \<^verbatim>\<open>null\<close>, so the row sent to insert holds for the slot
  exactly what the request body holds, and nothing at all when the body has no such field.
\<close>

theorem bank_create_nulls_missing_passbook:
  "(req_file req = None \<longrightarrow>
      set (sent ''passbook_photo'' (trace (post_bank_accounts e req) s)) \<subseteq> {Some JNull} \<and>
      (status (fst (post_bank_accounts e req s)) = 200 \<longrightarrow>
         sent ''passbook_photo'' (trace (post_bank_accounts e req) s) = [Some JNull] \<and>
         (\<exists>row. row ''passbook_photo'' = Some JNull \<and>
            payload (fst (post_bank_accounts e req s)) = Row row \<and>
            tables (snd (post_bank_accounts e req s)) ''bank_accounts'' = tables s ''bank_accounts'' @ [row])))
   \<and>
   (files req = Some fs \<and> fs slot = None \<longrightarrow>
      set (sent slot (trace (post_vendors e req) s)) \<subseteq> {body req slot} \<and>
      (status (fst (post_vendors e req s)) = 200 \<longrightarrow>
         sent slot (trace (post_vendors e req) s) = [body req slot] \<and>
         (\<exists>row. row slot = body req slot \<and>
            payload (fst (post_vendors e req s)) = Row row \<and>
            tables (snd (post_vendors e req s)) ''vendors'' = tables s ''vendors'' @ [row])))"
proof (rule conjI; rule impI)
  assume nofile: "req_file req = None"
  show "set (sent ''passbook_photo'' (trace (post_bank_accounts e req) s)) \<subseteq> {Some JNull} \<and>
      (status (fst (post_bank_accounts e req s)) = 200 \<longrightarrow>
         sent ''passbook_photo'' (trace (post_bank_accounts e req) s) = [Some JNull] \<and>
         (\<exists>row. row ''passbook_photo'' = Some JNull \<and>
            payload (fst (post_bank_accounts e req s)) = Row row \<and>
            tables (snd (post_bank_accounts e req s)) ''bank_accounts'' = tables s ''bank_accounts'' @ [row]))"
  proof (cases rule: post_bank_accounts_cases [of e req s])
    case (stopped msg)
    then show ?thesis by (simp add: json_def sent_def column_values_def)
  next
    case (thrown buf msg)
    with nofile show ?thesis by simp
  next
    case (rejected photoUrl T msg)
    with nofile have "photoUrl = None" "T = []" by auto
    with rejected show ?thesis by (simp add: json_def sent_def column_values_def)
  next
    case (inserted photoUrl T)
    with nofile have "photoUrl = None" "T = []" by auto
    with inserted show ?thesis by (simp add: json_def sent_def column_values_def)
  qed
next
  assume "files req = Some fs \<and> fs slot = None"
  then have fs: "files req = Some fs" and absent: "fs slot = None"
    by simp_all
  show "set (sent slot (trace (post_vendors e req) s)) \<subseteq> {body req slot} \<and>
      (status (fst (post_vendors e req s)) = 200 \<longrightarrow>
         sent slot (trace (post_vendors e req) s) = [body req slot] \<and>
         (\<exists>row. row slot = body req slot \<and>
            payload (fst (post_vendors e req s)) = Row row \<and>
            tables (snd (post_vendors e req s)) ''vendors'' = tables s ''vendors'' @ [row]))"
  proof (cases rule: post_vendors_cases [of e req s])
    case (stopped msg)
    then show ?thesis by (simp add: json_def sent_def column_values_def)
  next
    case undefined
    with fs show ?thesis by simp
  next
    case (thrown fs' msg T)
    then show ?thesis by (simp add: json_def sent_Cons slots_run_filters column_values_def)
  next
    case (rejected fs' photoUrls T msg)
    with fs have run: "slots_run e fs (body req ''user_id'') ''vendor'' vendor_slots Map.empty (Return photoUrls) T"
      by simp
    have "photoUrls slot = Map.empty slot"
      using run refl disjI2 [OF absent] by (rule slots_run_untouched)
    then have "(body req ++ photoUrls) slot = body req slot" by (simp add: map_add_def)
    with rejected(4,5) slots_run_filters(4) [OF run, of slot] show ?thesis
      by (simp add: json_def sent_def column_values_def)
  next
    case (inserted fs' photoUrls T)
    with fs have run: "slots_run e fs (body req ''user_id'') ''vendor'' vendor_slots Map.empty (Return photoUrls) T"
      by simp
    have "photoUrls slot = Map.empty slot"
      using run refl disjI2 [OF absent] by (rule slots_run_untouched)
    then have "(body req ++ photoUrls) slot = body req slot" by (simp add: map_add_def)
    with inserted(4-6) slots_run_filters(4) [OF run, of slot] show ?thesis
      by (simp add: json_def sent_def column_values_def)
  qed
qed

theorem bank_create_nulls_missing_passbook_witness:
  "req_file create_u4 = None \<and>
   body create_u4 ''passbook_photo'' = Some (JStr ''typed-by-hand'') \<and>
   status (fst (post_bank_accounts no_faults create_u4 store0)) = 200 \<and>
   sent ''passbook_photo'' (trace (post_bank_accounts no_faults create_u4) store0) = [Some JNull] \<and>
   column_values ''passbook_photo'' (tables (snd (post_bank_accounts no_faults create_u4 store0)) ''bank_accounts'') =
     [Some JNull] \<and>
   files create_u4 = Some Map.empty \<and>
   body create_u4 ''cart_photo'' = None \<and>
   status (fst (post_vendors no_faults create_u4 store0)) = 200 \<and>
   sent ''cart_photo'' (trace (post_vendors no_faults create_u4) store0) = [None] \<and>
   column_values ''cart_photo'' (tables (snd (post_vendors no_faults create_u4 store0)) ''vendors'') = [None] \<and>
   files create_u5 = Some Map.empty \<and>
   body create_u5 ''cart_photo'' = Some (JStr ''typed-by-hand'') \<and>
   status (fst (post_vendors no_faults create_u5 store0)) = 200 \<and>
   sent ''cart_photo'' (trace (post_vendors no_faults create_u5) store0) = [Some (JStr ''typed-by-hand'')] \<and>
   column_values ''cart_photo'' (tables (snd (post_vendors no_faults create_u5 store0)) ''vendors'') =
     [Some (JStr ''typed-by-hand'')]"
proof -
  have sv: "status (fst (post_vendors no_faults create_u4 store0)) = 200"
    by (simp add: create_u4_def store0_def no_faults_def post_vendors_def try_catch_def await_def resolve_def return_def
        db_maybeSingle_def db_insert_def upload_vendor_photos_def upload_if_present_def issue_def Let_def json_def)
  have sv': "status (fst (post_vendors no_faults create_u5 store0)) = 200"
    by (simp add: create_u5_def store0_def no_faults_def post_vendors_def try_catch_def await_def resolve_def return_def
        db_maybeSingle_def db_insert_def upload_vendor_photos_def upload_if_present_def issue_def Let_def json_def)
  have sb: "status (fst (post_bank_accounts no_faults create_u4 store0)) = 200"
    by (simp add: create_u4_def store0_def no_faults_def post_bank_accounts_def try_catch_def await_def resolve_def return_def
        db_maybeSingle_def db_insert_def upload_passbook_photo_def issue_def Let_def json_def)
  have f: "files create_u4 = Some Map.empty" "req_file create_u4 = None"
    "body create_u4 ''passbook_photo'' = Some (JStr ''typed-by-hand'')"
    "body create_u4 ''cart_photo'' = None"
    "files create_u5 = Some Map.empty"
    "body create_u5 ''cart_photo'' = Some (JStr ''typed-by-hand'')"
    by (simp_all add: create_u4_def create_u5_def)
  have t: "tables store0 table = []" for table
    by (simp add: store0_def)
  show ?thesis
    using bank_create_nulls_missing_passbook [of create_u4 no_faults store0 Map.empty "''cart_photo''"]
      bank_create_nulls_missing_passbook [of create_u5 no_faults store0 Map.empty "''cart_photo''"] sv sv' sb f
    by (auto simp: t column_values_def)
qed

section \<open>Update\<close>

text \<open>
  Claim C3 says that an update whose target \<^verbatim>\<open>user_id\<close> matches no row surfaces a NotFound
  condition rather than an empty success payload. The handlers do the opposite: for
  \<^verbatim>\<open>u9\<close>, whom no row names, both answer HTTP 200 with the payload \<^verbatim>\<open>undefined\<close>.
\<close>

theorem update_missing_counterexample:
  "filter (eq_filter ''user_id'' (Some (JStr (params_user_id request_u9)))) (tables store2 ''vendors'') = [] \<and>
   fst (put_vendors no_faults request_u9 store2) = \<lparr>status = 200, payload = Undefined\<rparr> \<and>
   filter (eq_filter ''user_id'' (Some (JStr (params_user_id request_u9)))) (tables store2 ''bank_accounts'') = [] \<and>
   fst (put_bank_accounts no_faults request_u9 store2) = \<lparr>status = 200, payload = Undefined\<rparr>"
  by (simp add: request_u9_def store2_def no_faults_def vendor_u1_def vendor_u2_def account_u1_def account_u2_def
        eq_filter_def put_vendors_def put_bank_accounts_def try_catch_def await_def resolve_def return_def json_def
        upload_vendor_photos_def upload_if_present_def upload_passbook_photo_def db_update_def issue_def Let_def)

text \<open>
  Claim C3, amended. An update whose target \<^verbatim>\<open>user_id\<close> matches no row, and in which no
  call fails (for a vendor, the request is multipart, so that \<^verbatim>\<open>req.files\<close> is set), is
  answered with HTTP 200 and the payload \<^verbatim>\<open>undefined\<close>, and leaves every row unchanged.
\<close>

theorem update_missing_answers_empty_success:
  "(filter (eq_filter ''user_id'' (Some (JStr (params_user_id req)))) (tables s ''vendors'') = [] \<and>
    files req \<noteq> None \<and> (\<forall>c \<in> set (trace (put_vendors e req) s). fault e c = None) \<longrightarrow>
      fst (put_vendors e req s) = \<lparr>status = 200, payload = Undefined\<rparr> \<and>
      tables (snd (put_vendors e req s)) = tables s)
   \<and>
   (filter (eq_filter ''user_id'' (Some (JStr (params_user_id req)))) (tables s ''bank_accounts'') = [] \<and>
    (\<forall>c \<in> set (trace (put_bank_accounts e req) s). fault e c = None) \<longrightarrow>
      fst (put_bank_accounts e req s) = \<lparr>status = 200, payload = Undefined\<rparr> \<and>
      tables (snd (put_bank_accounts e req s)) = tables s)"
proof (rule conjI; rule impI; elim conjE)
  assume none: "filter (eq_filter ''user_id'' (Some (JStr (params_user_id req)))) (tables s ''vendors'') = []"
    and f: "files req \<noteq> None"
    and ok: "\<forall>c \<in> set (trace (put_vendors e req) s). fault e c = None"
  from f obtain fs where fs: "files req = Some fs" by blast
  from fs show "fst (put_vendors e req s) = \<lparr>status = 200, payload = Undefined\<rparr> \<and>
      tables (snd (put_vendors e req s)) = tables s"
  proof (cases rule: put_vendors_cases [of req fs e s])
    case (thrown msg T)
    from slots_run_Throw [OF thrown(1)] obtain c where "c \<in> set T" "fault e c = Some msg" by blast
    with thrown(2) ok show ?thesis by auto
  next
    case (rejected photoUrls T msg)
    with ok show ?thesis by auto
  next
    case (updated photoUrls T)
    with none show ?thesis by (simp add: json_def no_match_unchanged)
  qed
next
  assume none: "filter (eq_filter ''user_id'' (Some (JStr (params_user_id req)))) (tables s ''bank_accounts'') = []"
    and ok: "\<forall>c \<in> set (trace (put_bank_accounts e req) s). fault e c = None"
  show "fst (put_bank_accounts e req s) = \<lparr>status = 200, payload = Undefined\<rparr> \<and>
      tables (snd (put_bank_accounts e req s)) = tables s"
  proof (cases rule: put_bank_accounts_cases [of req e s])
    case (thrown buf msg)
    with ok show ?thesis by auto
  next
    case (rejected photoUrl T msg)
    with ok show ?thesis by auto
  next
    case (updated photoUrl T)
    with none show ?thesis by (simp add: json_def no_match_unchanged)
  qed
qed

theorem update_missing_answers_empty_success_witness:
  "filter (eq_filter ''user_id'' (Some (JStr (params_user_id request_u9)))) (tables store2 ''vendors'') = [] \<and>
   files request_u9 \<noteq> None \<and>
   trace (put_vendors no_faults request_u9) store2 =
     [Update ''vendors'' (body request_u9) ''user_id'' (Some (JStr ''u9''))] \<and>
   fst (put_vendors no_faults request_u9 store2) = \<lparr>status = 200, payload = Undefined\<rparr> \<and>
   tables (snd (put_vendors no_faults request_u9 store2)) = tables store2 \<and>
   filter (eq_filter ''user_id'' (Some (JStr (params_user_id request_u9)))) (tables store2 ''bank_accounts'') = [] \<and>
   trace (put_bank_accounts no_faults request_u9) store2 =
     [Update ''bank_accounts'' (body request_u9) ''user_id'' (Some (JStr ''u9''))] \<and>
   fst (put_bank_accounts no_faults request_u9 store2) = \<lparr>status = 200, payload = Undefined\<rparr> \<and>
   tables (snd (put_bank_accounts no_faults request_u9 store2)) = tables store2"
proof -
  have nf: "fault no_faults c = None" for c
    by (simp add: no_faults_def)
  have v: "filter (eq_filter ''user_id'' (Some (JStr (params_user_id request_u9)))) (tables store2 ''vendors'') = []"
    and b: "filter (eq_filter ''user_id'' (Some (JStr (params_user_id request_u9)))) (tables store2 ''bank_accounts'') = []"
    by (simp_all add: request_u9_def store2_def vendor_u1_def vendor_u2_def account_u1_def account_u2_def eq_filter_def)
  have f: "files request_u9 \<noteq> None"
    by (simp add: request_u9_def)
  have tv: "trace (put_vendors no_faults request_u9) store2 =
     [Update ''vendors'' (body request_u9) ''user_id'' (Some (JStr ''u9''))]"
    by (simp add: request_u9_def store2_def no_faults_def put_vendors_def try_catch_def await_def resolve_def return_def
        upload_vendor_photos_def upload_if_present_def db_update_def issue_def Let_def trace_def)
  have tb: "trace (put_bank_accounts no_faults request_u9) store2 =
     [Update ''bank_accounts'' (body request_u9) ''user_id'' (Some (JStr ''u9''))]"
    by (simp add: request_u9_def store2_def no_faults_def put_bank_accounts_def try_catch_def await_def resolve_def return_def
        upload_passbook_photo_def db_update_def issue_def Let_def trace_def)
  show ?thesis
    using update_missing_answers_empty_success [of request_u9 store2 no_faults] v b f tv tb nf
    by simp
qed

text \<open>
  Claim C6 says that for every update and every attachment slot for which no file was
  supplied the patch has no entry for the slot, so that the stored field is unchanged. The
  patch is \<^verbatim>\<open>{...req.body, ...photoUrls}\<close>, and the body may name the slot: the update of
  \<^verbatim>\<open>u1\<close> brings no file and a hand-typed \<^verbatim>\<open>personal_photo\<close> (and \<^verbatim>\<open>passbook_photo\<close>), the
  patch carries it, and the stored URL is replaced.
\<close>

theorem update_patch_counterexample:
  "files update_u1 = Some Map.empty \<and>
   sent ''personal_photo'' (trace (put_vendors no_faults update_u1) store2) = [Some (JStr ''typed-by-hand'')] \<and>
   column_values ''personal_photo'' (tables store2 ''vendors'') =
     [Some (JStr ''https://cdn.test/photos/u1/vendor/personal.jpg''), None] \<and>
   column_values ''personal_photo'' (tables (snd (put_vendors no_faults update_u1 store2)) ''vendors'') =
     [Some (JStr ''typed-by-hand''), None] \<and>
   req_file update_u1 = None \<and>
   sent ''passbook_photo'' (trace (put_bank_accounts no_faults update_u1) store2) = [Some (JStr ''typed-by-hand'')] \<and>
   column_values ''passbook_photo'' (tables store2 ''bank_accounts'') =
     [Some (JStr ''https://cdn.test/photos/u1/bank/passbook.jpg''), None] \<and>
   column_values ''passbook_photo'' (tables (snd (put_bank_accounts no_faults update_u1 store2)) ''bank_accounts'') =
     [Some (JStr ''typed-by-hand''), None]"
  by (simp add: update_u1_def store2_def no_faults_def vendor_u1_def vendor_u2_def account_u1_def account_u2_def
        eq_filter_def put_vendors_def put_bank_accounts_def try_catch_def await_def resolve_def return_def
        upload_vendor_photos_def upload_if_present_def upload_passbook_photo_def db_update_def issue_def Let_def
        trace_def sent_def column_values_def apply_patch_def)

text \<open>
  Claim C6, amended. For every update and every attachment slot for which no file was
  supplied, the handler adds nothing for the slot to the patch and never nulls it: the
  patch holds for the slot exactly what the request body holds. When the body has no such
  field either, the stored rows keep their value of the slot.
\<close>

theorem update_keeps_unsupplied_slots:
  "(files req = Some fs \<and> fs slot = None \<longrightarrow>
      set (sent slot (trace (put_vendors e req) s)) \<subseteq> {body req slot} \<and>
      (body req slot = None \<longrightarrow>
         column_values slot (tables (snd (put_vendors e req s)) ''vendors'') =
         column_values slot (tables s ''vendors'')))
   \<and>
   (req_file req = None \<longrightarrow>
      set (sent ''passbook_photo'' (trace (put_bank_accounts e req) s)) \<subseteq> {body req ''passbook_photo''} \<and>
      (body req ''passbook_photo'' = None \<longrightarrow>
         column_values ''passbook_photo'' (tables (snd (put_bank_accounts e req s)) ''bank_accounts'') =
         column_values ''passbook_photo'' (tables s ''bank_accounts'')))"
proof (rule conjI; rule impI)
  assume "files req = Some fs \<and> fs slot = None"
  then have fs: "files req = Some fs" and absent: "fs slot = None" by simp_all
  from fs show "set (sent slot (trace (put_vendors e req) s)) \<subseteq> {body req slot} \<and>
      (body req slot = None \<longrightarrow>
         column_values slot (tables (snd (put_vendors e req s)) ''vendors'') =
         column_values slot (tables s ''vendors''))"
  proof (cases rule: put_vendors_cases [of req fs e s])
    case (thrown msg T)
    then show ?thesis by (simp add: slots_run_filters)
  next
    case (rejected photoUrls T msg)
    have "photoUrls slot = Map.empty slot"
      using rejected(1) _ disjI2 [OF absent] by (rule slots_run_untouched) simp
    then have "(body req ++ photoUrls) slot = body req slot" by (simp add: map_add_def)
    with rejected show ?thesis
      by (simp add: sent_append sent_write slots_run_filters)
  next
    case (updated photoUrls T)
    have "photoUrls slot = Map.empty slot"
      using updated(1) _ disjI2 [OF absent] by (rule slots_run_untouched) simp
    then have "(body req ++ photoUrls) slot = body req slot" by (simp add: map_add_def)
    with updated show ?thesis
      by (simp add: sent_append sent_write slots_run_filters column_values_patched)
  qed
next
  assume nofile: "req_file req = None"
  show "set (sent ''passbook_photo'' (trace (put_bank_accounts e req) s)) \<subseteq> {body req ''passbook_photo''} \<and>
      (body req ''passbook_photo'' = None \<longrightarrow>
         column_values ''passbook_photo'' (tables (snd (put_bank_accounts e req s)) ''bank_accounts'') =
         column_values ''passbook_photo'' (tables s ''bank_accounts''))"
  proof (cases rule: put_bank_accounts_cases [of req e s])
    case (thrown buf msg)
    with nofile show ?thesis by simp
  next
    case (rejected photoUrl T msg)
    with nofile have "photoUrl = None" "T = []" by auto
    with rejected show ?thesis by (simp add: sent_write)
  next
    case (updated photoUrl T)
    with nofile have "photoUrl = None" "T = []" by auto
    with updated show ?thesis by (simp add: sent_write column_values_patched)
  qed
qed

theorem update_keeps_unsupplied_slots_witness:
  "files update_u2 = Some [''cart_photo'' \<mapsto> ''CART''] \<and>
   [''cart_photo'' \<mapsto> ''CART''] ''personal_photo'' = None \<and>
   body update_u2 ''personal_photo'' = None \<and>
   set (sent ''personal_photo'' (trace (put_vendors no_faults update_u2) store2)) \<subseteq> {None} \<and>
   column_values ''personal_photo'' (tables (snd (put_vendors no_faults update_u2 store2)) ''vendors'') =
     [Some (JStr ''https://cdn.test/photos/u1/vendor/personal.jpg''), None] \<and>
   req_file update_u2 = None \<and>
   body update_u2 ''passbook_photo'' = None \<and>
   set (sent ''passbook_photo'' (trace (put_bank_accounts no_faults update_u2) store2)) \<subseteq> {None} \<and>
   column_values ''passbook_photo'' (tables (snd (put_bank_accounts no_faults update_u2 store2)) ''bank_accounts'') =
     [Some (JStr ''https://cdn.test/photos/u1/bank/passbook.jpg''), None]"
proof -
  have f: "files update_u2 = Some [''cart_photo'' \<mapsto> ''CART'']" "req_file update_u2 = None"
    "body update_u2 ''personal_photo'' = None" "body update_u2 ''passbook_photo'' = None"
    by (simp_all add: update_u2_def)
  have before: "column_values ''personal_photo'' (tables store2 ''vendors'') =
     [Some (JStr ''https://cdn.test/photos/u1/vendor/personal.jpg''), None]"
    "column_values ''passbook_photo'' (tables store2 ''bank_accounts'') =
     [Some (JStr ''https://cdn.test/photos/u1/bank/passbook.jpg''), None]"
    by (simp_all add: store2_def column_values_def vendor_u1_def vendor_u2_def account_u1_def account_u2_def)
  show ?thesis
    using update_keeps_unsupplied_slots
      [of update_u2 "[''cart_photo'' \<mapsto> ''CART'']" "''personal_photo''" no_faults store2] f before
    by simp
qed

text \<open>
  Claim C8. On the update path no uniqueness check is performed: neither update handler
  issues any query. And an update in which no call fails succeeds with HTTP 200 and writes
  the natural key of the request body (the phone, the account number) into every row of the
  target \<^verbatim>\<open>user_id\<close>, whatever the other rows hold: no condition on the other rows stands
  among the hypotheses, and in the example two rows end with the same key.
\<close>

theorem update_skips_uniqueness_check:
  "filter is_select (trace (put_vendors e req) s) = [] \<and>
   filter is_select (trace (put_bank_accounts e req) s) = [] \<and>
   (files req \<noteq> None \<and> (\<forall>c \<in> set (trace (put_vendors e req) s). fault e c = None) \<longrightarrow>
      status (fst (put_vendors e req s)) = 200 \<and>
      (\<exists>patch. patch ''phone'' = body req ''phone'' \<and>
         tables (snd (put_vendors e req s)) =
           (tables s)(''vendors'' :=
              map (apply_patch patch ''user_id'' (Some (JStr (params_user_id req)))) (tables s ''vendors'')))) \<and>
   ((\<forall>c \<in> set (trace (put_bank_accounts e req) s). fault e c = None) \<longrightarrow>
      status (fst (put_bank_accounts e req s)) = 200 \<and>
      (\<exists>patch. patch ''account_number'' = body req ''account_number'' \<and>
         tables (snd (put_bank_accounts e req s)) =
           (tables s)(''bank_accounts'' :=
              map (apply_patch patch ''user_id'' (Some (JStr (params_user_id req)))) (tables s ''bank_accounts''))))"
proof (intro conjI)
  show "filter is_select (trace (put_vendors e req) s) = []"
  proof (cases "files req")
    case None
    then show ?thesis by (simp add: put_vendors_undefined trace_def)
  next
    case (Some fs)
    then show ?thesis
      by (cases rule: put_vendors_cases [of req fs e s]) (simp_all add: slots_run_filters)
  qed
  show "filter is_select (trace (put_bank_accounts e req) s) = []"
    by (cases rule: put_bank_accounts_cases [of req e s]) auto
  show "files req \<noteq> None \<and> (\<forall>c \<in> set (trace (put_vendors e req) s). fault e c = None) \<longrightarrow>
      status (fst (put_vendors e req s)) = 200 \<and>
      (\<exists>patch. patch ''phone'' = body req ''phone'' \<and>
         tables (snd (put_vendors e req s)) =
           (tables s)(''vendors'' :=
              map (apply_patch patch ''user_id'' (Some (JStr (params_user_id req)))) (tables s ''vendors'')))"
  proof (rule impI, elim conjE)
    assume f: "files req \<noteq> None" and ok: "\<forall>c \<in> set (trace (put_vendors e req) s). fault e c = None"
    from f obtain fs where fs: "files req = Some fs" by blast
    from fs show "status (fst (put_vendors e req s)) = 200 \<and>
      (\<exists>patch. patch ''phone'' = body req ''phone'' \<and>
         tables (snd (put_vendors e req s)) =
           (tables s)(''vendors'' :=
              map (apply_patch patch ''user_id'' (Some (JStr (params_user_id req)))) (tables s ''vendors'')))"
    proof (cases rule: put_vendors_cases [of req fs e s])
      case (thrown msg T)
      from slots_run_Throw [OF thrown(1)] obtain c where "c \<in> set T" "fault e c = Some msg" by blast
      with thrown(2) ok show ?thesis by auto
    next
      case (rejected photoUrls T msg)
      with ok show ?thesis by auto
    next
      case (updated photoUrls T)
      have "photoUrls ''phone'' = Map.empty ''phone''"
        using updated(1) by (rule slots_run_untouched) simp_all
      then have "(body req ++ photoUrls) ''phone'' = body req ''phone''"
        by (simp add: map_add_def)
      with updated show ?thesis
        by (auto simp: json_def)
    qed
  qed
  show "(\<forall>c \<in> set (trace (put_bank_accounts e req) s). fault e c = None) \<longrightarrow>
      status (fst (put_bank_accounts e req s)) = 200 \<and>
      (\<exists>patch. patch ''account_number'' = body req ''account_number'' \<and>
         tables (snd (put_bank_accounts e req s)) =
           (tables s)(''bank_accounts'' :=
              map (apply_patch patch ''user_id'' (Some (JStr (params_user_id req)))) (tables s ''bank_accounts'')))"
  proof
    assume ok: "\<forall>c \<in> set (trace (put_bank_accounts e req) s). fault e c = None"
    have k: "(body req ++ passbook_patch photoUrl) ''account_number'' = body req ''account_number''" for photoUrl
      by (cases photoUrl) (simp_all add: map_add_def)
    show "status (fst (put_bank_accounts e req s)) = 200 \<and>
      (\<exists>patch. patch ''account_number'' = body req ''account_number'' \<and>
         tables (snd (put_bank_accounts e req s)) =
           (tables s)(''bank_accounts'' :=
              map (apply_patch patch ''user_id'' (Some (JStr (params_user_id req)))) (tables s ''bank_accounts'')))"
    proof (cases rule: put_bank_accounts_cases [of req e s])
      case (thrown buf msg)
      with ok show ?thesis by auto
    next
      case (rejected photoUrl T msg)
      with ok show ?thesis by auto
    next
      case (updated photoUrl T)
      with k [of photoUrl] show ?thesis by (auto simp: json_def)
    qed
  qed
qed

theorem update_skips_uniqueness_check_witness:
  "files update_u2 \<noteq> None \<and>
   list_all (\<lambda>c. fault no_faults c = None) (trace (put_vendors no_faults update_u2) store2) \<and>
   filter is_select (trace (put_vendors no_faults update_u2) store2) = [] \<and>
   status (fst (put_vendors no_faults update_u2 store2)) = 200 \<and>
   column_values ''phone'' (tables store2 ''vendors'') = [Some (JStr ''9999999999''), Some (JStr ''8888888888'')] \<and>
   column_values ''phone'' (tables (snd (put_vendors no_faults update_u2 store2)) ''vendors'') =
     [Some (JStr ''9999999999''), Some (JStr ''9999999999'')] \<and>
   list_all (\<lambda>c. fault no_faults c = None) (trace (put_bank_accounts no_faults update_u2) store2) \<and>
   filter is_select (trace (put_bank_accounts no_faults update_u2) store2) = [] \<and>
   status (fst (put_bank_accounts no_faults update_u2 store2)) = 200 \<and>
   column_values ''account_number'' (tables store2 ''bank_accounts'') = [Some (JStr ''ACC1''), Some (JStr ''ACC2'')] \<and>
   column_values ''account_number'' (tables (snd (put_bank_accounts no_faults update_u2 store2)) ''bank_accounts'') =
     [Some (JStr ''ACC1''), Some (JStr ''ACC1'')]"
proof -
  have nf: "fault no_faults c = None" for c
    by (simp add: no_faults_def)
  have f: "files update_u2 \<noteq> None"
    by (simp add: update_u2_def)
  have before: "column_values ''phone'' (tables store2 ''vendors'') = [Some (JStr ''9999999999''), Some (JStr ''8888888888'')]"
    "column_values ''account_number'' (tables store2 ''bank_accounts'') = [Some (JStr ''ACC1''), Some (JStr ''ACC2'')]"
    by (simp_all add: store2_def column_values_def vendor_u1_def vendor_u2_def account_u1_def account_u2_def)
  have rows: "tables store2 ''vendors'' = [vendor_u1, vendor_u2]" "tables store2 ''bank_accounts'' = [account_u1, account_u2]"
    by (simp_all add: store2_def)
  have m: "eq_filter ''user_id'' (Some (JStr (params_user_id update_u2))) vendor_u2"
    "\<not> eq_filter ''user_id'' (Some (JStr (params_user_id update_u2))) vendor_u1"
    "eq_filter ''user_id'' (Some (JStr (params_user_id update_u2))) account_u2"
    "\<not> eq_filter ''user_id'' (Some (JStr (params_user_id update_u2))) account_u1"
    by (simp_all add: eq_filter_def update_u2_def vendor_u1_def vendor_u2_def account_u1_def account_u2_def)
  have k: "body update_u2 ''phone'' = Some (JStr ''9999999999'')" "body update_u2 ''account_number'' = Some (JStr ''ACC1'')"
    "vendor_u1 ''phone'' = Some (JStr ''9999999999'')" "account_u1 ''account_number'' = Some (JStr ''ACC1'')"
    by (simp_all add: update_u2_def vendor_u1_def account_u1_def)
  show ?thesis
    using update_skips_uniqueness_check [of no_faults update_u2 store2] nf f before
    by (auto simp: list_all_iff rows m k apply_patch_def column_values_def)
qed

text \<open>
  Claim C10. Update is idempotent: for every store, every request and every behaviour of
  the services, serving the same update a second time leaves the rows and the objects as
  the first left them, and the second run issues the calls of the first; so the only
  repeated effect on the object store is that the same paths are overwritten with the same
  bytes.
\<close>

theorem update_idempotent:
  "tables (snd (put_vendors e req (snd (put_vendors e req s)))) = tables (snd (put_vendors e req s)) \<and>
   objects (snd (put_vendors e req (snd (put_vendors e req s)))) = objects (snd (put_vendors e req s)) \<and>
   trace (put_vendors e req) (snd (put_vendors e req s)) = trace (put_vendors e req) s \<and>
   tables (snd (put_bank_accounts e req (snd (put_bank_accounts e req s)))) =
     tables (snd (put_bank_accounts e req s)) \<and>
   objects (snd (put_bank_accounts e req (snd (put_bank_accounts e req s)))) =
     objects (snd (put_bank_accounts e req s)) \<and>
   trace (put_bank_accounts e req) (snd (put_bank_accounts e req s)) = trace (put_bank_accounts e req) s"
proof -
  obtain T D g where v: "\<forall>t. g (g t) = g t"
    "\<forall>s. snd (put_vendors e req s) = (effect T D s)\<lparr>tables := g (tables s)\<rparr>"
    using put_vendors_uniform [of e req] by blast
  obtain T' D' g' where b: "\<forall>t. g' (g' t) = g' t"
    "\<forall>s. snd (put_bank_accounts e req s) = (effect T' D' s)\<lparr>tables := g' (tables s)\<rparr>"
    using put_bank_accounts_uniform [of e req] by blast
  show ?thesis
    using uniform_twice [OF v, of s] uniform_twice [OF b, of s] by simp
qed

section \<open>Retrieval\<close>

text \<open>
  Claim C9. A get by \<^verbatim>\<open>user_id\<close> that matches no row fails: the handler answers HTTP 400
  with an error payload, never a success payload. The message is the record store's
  single-row error when the query itself is accepted.
\<close>

theorem get_missing_is_error:
  "(filter (eq_filter ''user_id'' (Some (JStr (params_user_id req)))) (tables s ''vendors'') = [] \<longrightarrow>
      status (fst (get_vendor e req s)) = 400 \<and>
      (\<exists>msg. payload (fst (get_vendor e req s)) = Error msg) \<and>
      (fault e (SelectSingle ''vendors'' ''*'' ''user_id'' (Some (JStr (params_user_id req)))) = None \<longrightarrow>
         payload (fst (get_vendor e req s)) = Error PGRST116) \<and>
      tables (snd (get_vendor e req s)) = tables s \<and> objects (snd (get_vendor e req s)) = objects s)
   \<and>
   (filter (eq_filter ''user_id'' (Some (JStr (params_user_id req)))) (tables s ''bank_accounts'') = [] \<longrightarrow>
      status (fst (get_bank_account e req s)) = 400 \<and>
      (\<exists>msg. payload (fst (get_bank_account e req s)) = Error msg) \<and>
      (fault e (SelectSingle ''bank_accounts'' ''*'' ''user_id'' (Some (JStr (params_user_id req)))) = None \<longrightarrow>
         payload (fst (get_bank_account e req s)) = Error PGRST116) \<and>
      tables (snd (get_bank_account e req s)) = tables s \<and> objects (snd (get_bank_account e req s)) = objects s)"
  by (simp add: get_vendor_def get_bank_account_def try_catch_def await_def resolve_def db_single_def return_def json_def
       issue_def Let_def split: option.splits)

theorem get_missing_is_error_witness:
  "filter (eq_filter ''user_id'' (Some (JStr (params_user_id request_u9)))) (tables store2 ''vendors'') = [] \<and>
   fst (get_vendor no_faults request_u9 store2)
     = \<lparr>status = 400, payload = Error ''JSON object requested, multiple (or no) rows returned''\<rparr> \<and>
   filter (eq_filter ''user_id'' (Some (JStr (params_user_id request_u9)))) (tables store2 ''bank_accounts'') = [] \<and>
   fst (get_bank_account no_faults request_u9 store2)
     = \<lparr>status = 400, payload = Error ''JSON object requested, multiple (or no) rows returned''\<rparr>"
  using get_missing_is_error [of request_u9 store2 no_faults]
  by (simp add: store2_def no_faults_def vendor_u1_def vendor_u2_def account_u1_def account_u2_def eq_filter_def
        PGRST116_def request_u9_def response.equality)

end
